theory Spec2Isabelle
  imports Complex_Main
begin

section \<open>Python values and errors\<close>

text \<open>
  An exception raised by the Python code is a value of type \<open>error\<close>; a function that may
  raise returns \<open>error + 'a\<close>, with \<open>Inl\<close> for the exception. The constructor is the
  exception class, its argument the message.
\<close>

datatype error =
    ValueError string
  | KeyError string
  | OSError string
  | AssertionError string
  | IndexError string
  | TypeError string
  | UnicodeDecodeError string

text \<open>
  Sequencing: \<open>and_then m f\<close> runs \<open>f\<close> on the value of \<open>m\<close>, or passes on the exception
  \<open>m\<close> raised. \<open>and_then_in fs m f\<close> does the same for a function that also returns the
  file system: an exception of \<open>m\<close> leaves the file system \<open>fs\<close>.
\<close>

definition and_then :: "error + 'a \<Rightarrow> ('a \<Rightarrow> error + 'b) \<Rightarrow> error + 'b" where
  "and_then m f = (case m of Inl e \<Rightarrow> Inl e | Inr x \<Rightarrow> f x)"

definition and_then_in :: "'s \<Rightarrow> error + 'a \<Rightarrow> ('a \<Rightarrow> (error + 'b) \<times> 's) \<Rightarrow> (error + 'b) \<times> 's" where
  "and_then_in fs m f = (case m of Inl e \<Rightarrow> (Inl e, fs) | Inr x \<Rightarrow> f x)"

text \<open>\<^verbatim>\<open>s.split(c)\<close> for a one-character separator: always a non-empty list.\<close>

fun split_on :: "char \<Rightarrow> string \<Rightarrow> string list" where
  "split_on c [] = [[]]"
| "split_on c (x # xs) =
     (if x = c then [] # split_on c xs
      else (case split_on c xs of
              w # ws \<Rightarrow> (x # w) # ws
            | [] \<Rightarrow> [[x]]))"

text \<open>\<^verbatim>\<open>d[k]\<close> on a dictionary: KeyError when the key is missing.\<close>

definition getitem :: "(string \<rightharpoonup> 'a) \<Rightarrow> string \<Rightarrow> error + 'a" where
  "getitem d k = (case d k of None \<Rightarrow> Inl (KeyError k) | Some v \<Rightarrow> Inr v)"

text \<open>
  The value under a key of the dictionary a call returned; \<open>None\<close> when the call raised
  or the key is missing.
\<close>

definition entry :: "error + (string \<rightharpoonup> 'a) \<Rightarrow> string \<Rightarrow> 'a option" where
  "entry r k = (case r of Inl e \<Rightarrow> None | Inr out \<Rightarrow> out k)"

section \<open>numpy arrays\<close>

text \<open>
  An array is its dtype, its shape and its elements in C (row-major) order. The element
  type \<open>'v\<close> is left open: the theorems hold for every interpretation of the values.
  What the libraries do to a single value is a parameter, collected in the record
  \<open>numpy\<close>: \<open>convert s t v\<close> is the value \<open>v\<close> of dtype \<open>s\<close> converted to dtype \<open>t\<close> (the
  C cast that \<^verbatim>\<open>astype\<close> applies, and that the HDF5 library applies when an array is
  written to a dataset of another type; it drops the fractional part of a float
  converted to an integer type), and \<open>from_int t i\<close> is the Python integer \<open>i\<close> stored
  with dtype \<open>t\<close>, which may raise.
\<close>

datatype dtype = I4 | I8 | F8

record 'v ndarray =
  dtype :: dtype
  shape :: "nat list"
  data :: "'v list"

record 'v numpy =
  convert :: "dtype \<Rightarrow> dtype \<Rightarrow> 'v \<Rightarrow> 'v"
  from_int :: "dtype \<Rightarrow> int \<Rightarrow> error + 'v"

definition wf_ndarray :: "'v ndarray \<Rightarrow> bool" where
  "wf_ndarray a = (length (data a) = prod_list (shape a))"

text \<open>\<^verbatim>\<open>a.size\<close>\<close>

definition asize :: "'v ndarray \<Rightarrow> nat" where
  "asize a = prod_list (shape a)"

text \<open>\<^verbatim>\<open>a.astype(t)\<close>: a copy when the dtype is already \<open>t\<close>, the cast of every element otherwise.\<close>

definition astype :: "'v numpy \<Rightarrow> dtype \<Rightarrow> 'v ndarray \<Rightarrow> 'v ndarray" where
  "astype np t a =
     (if dtype a = t then a
      else a\<lparr>dtype := t, data := map (convert np (dtype a) t) (data a)\<rparr>)"

text \<open>The elements \<open>f i j k\<close> of a three-dimensional array of shape \<open>(n0, n1, n2)\<close> in C order.\<close>

definition c_order3 :: "(nat \<Rightarrow> nat \<Rightarrow> nat \<Rightarrow> 'v) \<Rightarrow> nat \<Rightarrow> nat \<Rightarrow> nat \<Rightarrow> 'v list" where
  "c_order3 f n0 n1 n2 =
     concat (map (\<lambda>i. concat (map (\<lambda>j. map (\<lambda>k. f i j k) [0..<n2]) [0..<n1])) [0..<n0])"

text \<open>
  \<^verbatim>\<open>np.transpose(a, (2,1,0))\<close>: element \<open>(k, j, i)\<close> of the result is element \<open>(i, j, k)\<close> of
  \<open>a\<close>. numpy raises ValueError when \<open>a\<close> does not have three axes.
\<close>

definition transpose_210 :: "'v ndarray \<Rightarrow> error + 'v ndarray" where
  "transpose_210 a =
     (case shape a of
        [n0, n1, n2] \<Rightarrow>
          Inr (a\<lparr>shape := [n2, n1, n0],
                 data := c_order3 (\<lambda>k j i. data a ! (i * n1 * n2 + j * n2 + k)) n2 n1 n0\<rparr>)
      | _ \<Rightarrow> Inl (ValueError ''axes don't match array''))"

section \<open>HDF5 files through h5py\<close>

text \<open>
  A dataset is the stored array and its attributes; a group is its attributes and its
  datasets in creation order; a file maps the absolute name of a group to the group.
  The file system maps a file name to an HDF5 file or to something that is not one.
\<close>

record 'v dataset =
  ds :: "'v ndarray"
  attrs :: "(string \<times> string) list"

record 'v group =
  gattrs :: "(string \<times> string) list"
  members :: "(string \<times> 'v dataset) list"

type_synonym 'v h5file = "string \<rightharpoonup> 'v group"

datatype 'v fsentry = Hdf5 "'v h5file" | NotHdf5

type_synonym 'v filesystem = "string \<rightharpoonup> 'v fsentry"

text \<open>\<^verbatim>\<open>h5py.File(fn, "a")\<close>: read/write if the file exists, create it otherwise.\<close>

definition h5_open_a :: "'v filesystem \<Rightarrow> string \<Rightarrow> error + 'v h5file" where
  "h5_open_a fs fn =
     (case fs fn of
        None \<Rightarrow> Inr Map.empty
      | Some (Hdf5 f) \<Rightarrow> Inr f
      | Some NotHdf5 \<Rightarrow> Inl (OSError ''Unable to open file (file signature not found)''))"

text \<open>\<^verbatim>\<open>h5py.File(fn, "r")\<close>: the file must exist.\<close>

definition h5_open_r :: "'v filesystem \<Rightarrow> string \<Rightarrow> error + 'v h5file" where
  "h5_open_r fs fn =
     (case fs fn of
        None \<Rightarrow> Inl (OSError ''Unable to open file (No such file or directory)'')
      | Some (Hdf5 f) \<Rightarrow> Inr f
      | Some NotHdf5 \<Rightarrow> Inl (OSError ''Unable to open file (file signature not found)''))"

text \<open>\<^verbatim>\<open>f[path]\<close> for a group path relative to the root: KeyError when there is no such group.\<close>

definition h5_group :: "'v h5file \<Rightarrow> string \<Rightarrow> error + 'v group" where
  "h5_group f path =
     (case f (CHR ''/'' # path) of
        None \<Rightarrow> Inl (KeyError ''Unable to open object (component not found)'')
      | Some g \<Rightarrow> Inr g)"

text \<open>\<^verbatim>\<open>g.attrs[k]\<close>\<close>

definition h5_attr :: "'v group \<Rightarrow> string \<Rightarrow> error + string" where
  "h5_attr g k =
     (case map_of (gattrs g) k of
        None \<Rightarrow> Inl (KeyError ''Unable to open attribute (can't locate attribute)'')
      | Some v \<Rightarrow> Inr v)"

text \<open>
  The \<^verbatim>\<open>data=\<close> argument of \<^verbatim>\<open>create_dataset\<close>: a Python int, a Python float or an
  array. \<open>array_for_new_object\<close> is the array the new dataset holds: the data with
  its elements converted to the requested dtype, or as it is when no dtype is given.
\<close>

datatype 'v h5data = PyInt int | PyFloat 'v | Array "'v ndarray"

definition array_for_new_object :: "'v numpy \<Rightarrow> 'v h5data \<Rightarrow> dtype option \<Rightarrow> error + 'v ndarray" where
  "array_for_new_object np d dt =
     (case d of
        PyInt i \<Rightarrow>
          (let t = (case dt of None \<Rightarrow> I8 | Some t \<Rightarrow> t)
           in case from_int np t i of
                Inl e \<Rightarrow> Inl e
              | Inr v \<Rightarrow> Inr \<lparr>dtype = t, shape = [], data = [v]\<rparr>)
      | PyFloat x \<Rightarrow>
          (case dt of
             None \<Rightarrow> Inr \<lparr>dtype = F8, shape = [], data = [x]\<rparr>
           | Some t \<Rightarrow> Inr (astype np t \<lparr>dtype = F8, shape = [], data = [x]\<rparr>))
      | Array a \<Rightarrow>
          (case dt of None \<Rightarrow> Inr a | Some t \<Rightarrow> Inr (astype np t a)))"

text \<open>
  \<^verbatim>\<open>g.create_dataset(name, shape, data=data, dtype=dtype).attrs[k] = v\<close>. h5py converts the
  data, raises ValueError when the shape does not hold as many elements as the data or
  when the name exists, and writes the data in C order into a dataset of the given
  shape.
\<close>

definition create_dataset ::
  "'v numpy \<Rightarrow> 'v group \<Rightarrow> string \<Rightarrow> nat list \<Rightarrow> 'v h5data \<Rightarrow> dtype option
     \<Rightarrow> (string \<times> string) list \<Rightarrow> error + 'v group" where
  "create_dataset np g name shp d dt ats =
     (case array_for_new_object np d dt of
        Inl e \<Rightarrow> Inl e
      | Inr a \<Rightarrow>
          if prod_list shp \<noteq> asize a
            then Inl (ValueError ''Shape tuple is incompatible with data'')
          else if name \<in> set (map fst (members g))
            then Inl (ValueError ''Unable to create dataset (name already exists)'')
          else Inr (g\<lparr>members := members g @ [(name, \<lparr>ds = a\<lparr>shape := shp\<rparr>, attrs = ats\<rparr>)]\<rparr>))"

text \<open>
  \<^verbatim>\<open>dset[:]\<close>: the whole dataset as an array. h5py raises ValueError on a scalar
  dataset, one of shape \<open>()\<close>.
\<close>

definition read_dataset :: "'v dataset \<Rightarrow> error + 'v ndarray" where
  "read_dataset d =
     (if shape (ds d) = [] then Inl (ValueError ''Illegal slicing argument for scalar dataspace'')
      else Inr (ds d))"

text \<open>
  \<^verbatim>\<open>for key in f[path]: out[key] = f[path][key][:]\<close>, the value wrapped by \<open>h\<close>. The
  first dataset that cannot be read ends the loop with its exception. (h5py iterates in
  name order, the model in creation order: the exception and the dictionary are the
  same.)
\<close>

fun read_into ::
  "('v ndarray \<Rightarrow> 'a) \<Rightarrow> (string \<times> 'v dataset) list \<Rightarrow> (string \<rightharpoonup> 'a)
     \<Rightarrow> error + (string \<rightharpoonup> 'a)" where
  "read_into h [] out = Inr out"
| "read_into h ((key, d) # rest) out =
     and_then (read_dataset d) (\<lambda>a. read_into h rest (out(key \<mapsto> h a)))"

text \<open>The array stored in the group under a name, if there is one.\<close>

definition stored :: "'v group \<Rightarrow> string \<Rightarrow> 'v ndarray option" where
  "stored g name = map_option ds (map_of (members g) name)"

text \<open>
  The group has a dataset \<open>name\<close> of dtype \<open>t\<close> and shape \<open>shp\<close> whose elements are those
  of the array \<open>a\<close>, in the same order: as they are when \<open>a\<close> has dtype \<open>t\<close>, each
  converted to \<open>t\<close> otherwise.
\<close>

definition holds_as ::
  "'v numpy \<Rightarrow> 'v group \<Rightarrow> string \<Rightarrow> dtype \<Rightarrow> nat list \<Rightarrow> 'v ndarray \<Rightarrow> bool" where
  "holds_as np g name t shp a =
     (stored g name =
        Some \<lparr>dtype = t, shape = shp,
              data = (if dtype a = t then data a
                      else map (convert np (dtype a) t) (data a))\<rparr>)"

text \<open>
  A run of \<^verbatim>\<open>create_dataset\<close> statements inside a \<^verbatim>\<open>with h5py.File(...)\<close> block: the
  first one that raises ends the block, and what was created before it stays in the
  file.
\<close>

type_synonym 'v dsspec =
  "string \<times> nat list \<times> 'v h5data \<times> dtype option \<times> (string \<times> string) list"

fun create_datasets :: "'v numpy \<Rightarrow> 'v dsspec list \<Rightarrow> 'v group \<Rightarrow> error option \<times> 'v group" where
  "create_datasets np [] g = (None, g)"
| "create_datasets np ((name, shp, d, dt, ats) # rest) g =
     (case create_dataset np g name shp d dt ats of
        Inl e \<Rightarrow> (Some e, g)
      | Inr g' \<Rightarrow> create_datasets np rest g')"

text \<open>
  \<^verbatim>\<open>add_group(f, parent, group, desc=desc)\<close> is not among the sources. It is a parameter
  of the writers: given the open file it returns the file it leaves behind and either
  an error or the absolute name (\<^verbatim>\<open>g.name\<close>) of the group it created.
\<close>

type_synonym 'v add_group =
  "'v h5file \<Rightarrow> string \<Rightarrow> string \<Rightarrow> string option \<Rightarrow> (error + string) \<times> 'v h5file"

text \<open>
  Modelled from the spec: add_group of \<^verbatim>\<open>_iohelpers/fileapi.py\<close> and of \<^verbatim>\<open>ascot5file.py\<close>
  is missing from the sources. The spec's glossary calls the QID a unique identifier
  tagging one record within a file, and the readers look a record up as
  \<^verbatim>\<open>parent/group_qid\<close> (\<^verbatim>\<open>parent/group-qid\<close> for the options). This stand-in takes the
  separator, the QID and the date as arguments, creates the empty group with its
  description and date, and refuses a name that exists. It is used to run the writers on
  concrete inputs only.
\<close>

definition add_group_qid :: "string \<Rightarrow> string \<Rightarrow> string \<Rightarrow> 'v add_group" where
  "add_group_qid sep qid date f parent grp desc =
     (let name = ''/'' @ parent @ ''/'' @ grp @ sep @ qid
      in if f name \<noteq> None
           then (Inl (ValueError ''Unable to create group (name already exists)''), f)
         else (Inr name,
               f(name \<mapsto> \<lparr>gattrs = [(''description'',
                                        (case desc of None \<Rightarrow> ''No description.'' | Some d \<Rightarrow> d)),
                                      (''date'', date)],
                            members = []\<rparr>)))"

text \<open>The values used to run the model: integers, every cast keeping the number.\<close>

definition np_int :: "int numpy" where
  "np_int = \<lparr>convert = (\<lambda>s t v. v), from_int = (\<lambda>t i. Inr i)\<rparr>"


section \<open>Numbers\<close>

text \<open>
  A concrete reading of the values of an array: an integer, or a float64, which is the
  real number it stands for, NaN or an infinity. Where numpy and the HDF5 library agree
  and the result is exact, the conversion of a value is written out: an integer that
  fits the target type is kept, an integer of magnitude at most \<open>2^53\<close> is the same
  number as a float64, and a float converted to an integer type loses its fractional
  part (it is rounded toward zero, as a C cast does) when the result fits. What becomes
  of any other value (overflow, NaN, a large integer rounded to a float) depends on the
  library and is the parameter \<open>other\<close>.
\<close>

datatype npval = IntV int | FltV real | NaN | PosInf | NegInf

definition trunc_zero :: "real \<Rightarrow> int" where
  "trunc_zero x = (if 0 \<le> x then \<lfloor>x\<rfloor> else \<lceil>x\<rceil>)"

definition fits :: "dtype \<Rightarrow> int \<Rightarrow> bool" where
  "fits t i =
     (case t of
        I4 \<Rightarrow> - (2 ^ 31) \<le> i \<and> i < 2 ^ 31
      | I8 \<Rightarrow> - (2 ^ 63) \<le> i \<and> i < 2 ^ 63
      | F8 \<Rightarrow> - (2 ^ 53) \<le> i \<and> i \<le> 2 ^ 53)"

definition c_cast ::
  "(dtype \<Rightarrow> dtype \<Rightarrow> npval \<Rightarrow> npval) \<Rightarrow> dtype \<Rightarrow> dtype \<Rightarrow> npval \<Rightarrow> npval" where
  "c_cast other s t v =
     (case v of
        IntV i \<Rightarrow>
          if fits t i then (if t = F8 then FltV (of_int i) else IntV i) else other s t v
      | FltV x \<Rightarrow>
          if t = F8 then FltV x
          else if fits t (trunc_zero x) then IntV (trunc_zero x)
          else other s t v
      | _ \<Rightarrow> if t = F8 then v else other s t v)"

definition np_lib ::
  "(dtype \<Rightarrow> dtype \<Rightarrow> npval \<Rightarrow> npval) \<Rightarrow> (dtype \<Rightarrow> int \<Rightarrow> error + npval) \<Rightarrow> npval numpy" where
  "np_lib other fi = \<lparr>convert = c_cast other, from_int = fi\<rparr>"

text \<open>
  The group has a dataset \<open>name\<close> that holds, for every float \<open>x\<close> of the array \<open>a\<close> whose
  integer part fits the type \<open>t\<close>, that integer part at the same position.
\<close>

definition truncated :: "dtype \<Rightarrow> npval \<Rightarrow> npval \<Rightarrow> bool" where
  "truncated t v w =
     (case v of
        FltV x \<Rightarrow> fits t (trunc_zero x) \<longrightarrow> w = IntV (trunc_zero x)
      | _ \<Rightarrow> True)"

definition holds_truncated :: "npval group \<Rightarrow> string \<Rightarrow> dtype \<Rightarrow> npval ndarray \<Rightarrow> bool" where
  "holds_truncated g name t a =
     (case stored g name of
        None \<Rightarrow> False
      | Some b \<Rightarrow> list_all2 (truncated t) (data a) (data b))"

section \<open>E_3DS.py\<close>

text \<open>
  \<^verbatim>\<open>E_3DS.write_hdf5\<close>. The result is the value returned or the exception raised, and the
  file system the call leaves behind. A handle returned by add_group always denotes a
  group of the file; the KeyError branch stands for a parameter that breaks this.
\<close>

definition E_3DS_write_hdf5 ::
  "'v numpy \<Rightarrow> 'v add_group \<Rightarrow> 'v filesystem \<Rightarrow> string \<Rightarrow> 'v \<Rightarrow> 'v \<Rightarrow> int \<Rightarrow> 'v \<Rightarrow> 'v \<Rightarrow> int
     \<Rightarrow> 'v \<Rightarrow> 'v \<Rightarrow> int \<Rightarrow> 'v ndarray \<Rightarrow> 'v ndarray \<Rightarrow> 'v ndarray \<Rightarrow> string option
     \<Rightarrow> (error + string) \<times> 'v filesystem" where
  "E_3DS_write_hdf5 np add_group fs fn rmin rmax nr zmin zmax nz phimin phimax nphi
       er ephi ez desc =
     (if map int (shape er) \<noteq> [nr, nphi, nz]
        then (Inl (ValueError ''ER has an inconsinstent shape.''), fs)
      else if map int (shape ephi) \<noteq> [nr, nphi, nz]
        then (Inl (ValueError ''Ephi has an inconsinstent shape.''), fs)
      else if map int (shape ez) \<noteq> [nr, nphi, nz]
        then (Inl (ValueError ''Ez has an inconsinstent shape.''), fs)
      else
        and_then_in fs (transpose_210 er) (\<lambda>er'.
        and_then_in fs (transpose_210 ephi) (\<lambda>ephi'.
        and_then_in fs (transpose_210 ez) (\<lambda>ez'.
        and_then_in fs (h5_open_a fs fn) (\<lambda>f.
          (case add_group f ''efield'' ''E_3DS'' desc of
             (Inl e, f1) \<Rightarrow> (Inl e, fs(fn \<mapsto> Hdf5 f1))
           | (Inr name, f1) \<Rightarrow>
               (case f1 name of
                  None \<Rightarrow> (Inl (KeyError name), fs(fn \<mapsto> Hdf5 f1))
                | Some g \<Rightarrow>
                    (let gname = last (split_on CHR ''/'' name);
                         grid = [nat nz, nat nphi, nat nr];
                         (err, g') = create_datasets np
                           [(''rmin'', [1], PyFloat rmin, Some F8, []),
                            (''rmax'', [1], PyFloat rmax, Some F8, []),
                            (''nr'', [1], PyInt nr, Some I4, []),
                            (''phimin'', [1], PyFloat phimin, Some F8, []),
                            (''phimax'', [1], PyFloat phimax, Some F8, []),
                            (''nphi'', [1], PyInt nphi, Some I4, []),
                            (''zmin'', [1], PyFloat zmin, Some F8, []),
                            (''zmax'', [1], PyFloat zmax, Some F8, []),
                            (''nz'', [1], PyInt nz, Some I4, []),
                            (''er'', grid, Array er', Some F8, []),
                            (''ephi'', grid, Array ephi', Some F8, []),
                            (''ez'', grid, Array ez', Some F8, [])] g;
                         fs' = fs(fn \<mapsto> Hdf5 (f1(name \<mapsto> g')))
                     in (case err of Some e \<Rightarrow> (Inl e, fs') | None \<Rightarrow> (Inr gname, fs'))))))))))"

text \<open>
  \<^verbatim>\<open>E_3DS.read_hdf5\<close>: every dataset of the group is read into the dictionary, then the
  three field components are transposed.
\<close>

definition read_all :: "'v group \<Rightarrow> error + (string \<rightharpoonup> 'v ndarray)" where
  "read_all g = read_into (\<lambda>a. a) (members g) Map.empty"

definition transpose_entry ::
  "(string \<rightharpoonup> 'v ndarray) \<Rightarrow> string \<Rightarrow> error + (string \<rightharpoonup> 'v ndarray)" where
  "transpose_entry out key =
     and_then (getitem out key) (\<lambda>a.
     and_then (transpose_210 a) (\<lambda>b. Inr (out(key \<mapsto> b))))"

definition E_3DS_read_hdf5 ::
  "'v filesystem \<Rightarrow> string \<Rightarrow> string \<Rightarrow> error + (string \<rightharpoonup> 'v ndarray)" where
  "E_3DS_read_hdf5 fs fn qid =
     (let path = ''efield'' @ ''/E_3DS_'' @ qid
      in and_then (h5_open_r fs fn) (\<lambda>f.
         and_then (h5_group f path) (\<lambda>g.
         and_then (read_all g) (\<lambda>out.
         and_then (transpose_entry out ''er'') (\<lambda>out1.
         and_then (transpose_entry out1 ''ephi'') (\<lambda>out2.
         transpose_entry out2 ''ez''))))))"

section \<open>mrk_prt.py\<close>

text \<open>
  The thirteen size checks at the head of \<^verbatim>\<open>mrk_prt.write_hdf5\<close>, in the order of the
  source: the first array whose \<^verbatim>\<open>size\<close> differs from \<open>n\<close> decides the message.
\<close>

definition mrk_prt_check ::
  "int \<Rightarrow> 'v ndarray \<Rightarrow> 'v ndarray \<Rightarrow> 'v ndarray \<Rightarrow> 'v ndarray \<Rightarrow> 'v ndarray \<Rightarrow> 'v ndarray
     \<Rightarrow> 'v ndarray \<Rightarrow> 'v ndarray \<Rightarrow> 'v ndarray \<Rightarrow> 'v ndarray \<Rightarrow> 'v ndarray \<Rightarrow> 'v ndarray
     \<Rightarrow> 'v ndarray \<Rightarrow> error option" where
  "mrk_prt_check n ids mass charge r phi z vr vphi vz anum znum weight time =
     (if int (asize ids) \<noteq> n then Some (ValueError ''Inconsistent size for ids.'')
      else if int (asize mass) \<noteq> n then Some (ValueError ''Inconsistent size for mass.'')
      else if int (asize charge) \<noteq> n then Some (ValueError ''Inconsistent size for charge.'')
      else if int (asize r) \<noteq> n then Some (ValueError ''Inconsistent size for r.'')
      else if int (asize phi) \<noteq> n then Some (ValueError ''Inconsistent size for phi.'')
      else if int (asize z) \<noteq> n then Some (ValueError ''Inconsistent size for z.'')
      else if int (asize vr) \<noteq> n then Some (ValueError ''Inconsistent size for vR.'')
      else if int (asize vphi) \<noteq> n then Some (ValueError ''Inconsistent size for vphi.'')
      else if int (asize vz) \<noteq> n then Some (ValueError ''Inconsistent size for vz.'')
      else if int (asize anum) \<noteq> n then Some (ValueError ''Inconsistent size for anum.'')
      else if int (asize znum) \<noteq> n then Some (ValueError ''Inconsistent size for znum.'')
      else if int (asize weight) \<noteq> n then Some (ValueError ''Inconsistent size for weight.'')
      else if int (asize time) \<noteq> n then Some (ValueError ''Inconsistent size for time.'')
      else None)"

text \<open>\<^verbatim>\<open>mrk_prt.write_hdf5\<close>: the checks, then the group and its fourteen datasets.\<close>

definition mrk_prt_write_hdf5 ::
  "'v numpy \<Rightarrow> 'v add_group \<Rightarrow> 'v filesystem \<Rightarrow> string \<Rightarrow> int \<Rightarrow> 'v ndarray \<Rightarrow> 'v ndarray
     \<Rightarrow> 'v ndarray \<Rightarrow> 'v ndarray \<Rightarrow> 'v ndarray \<Rightarrow> 'v ndarray \<Rightarrow> 'v ndarray \<Rightarrow> 'v ndarray
     \<Rightarrow> 'v ndarray \<Rightarrow> 'v ndarray \<Rightarrow> 'v ndarray \<Rightarrow> 'v ndarray \<Rightarrow> 'v ndarray \<Rightarrow> string option
     \<Rightarrow> (error + string) \<times> 'v filesystem" where
  "mrk_prt_write_hdf5 np add_group fs fn n ids mass charge r phi z vr vphi vz anum znum
       weight time desc =
     (case mrk_prt_check n ids mass charge r phi z vr vphi vz anum znum weight time of
        Some e \<Rightarrow> (Inl e, fs)
      | None \<Rightarrow>
        and_then_in fs (h5_open_a fs fn) (\<lambda>f.
          (case add_group f ''marker'' ''prt'' desc of
             (Inl e, f1) \<Rightarrow> (Inl e, fs(fn \<mapsto> Hdf5 f1))
           | (Inr name, f1) \<Rightarrow>
               (case f1 name of
                  None \<Rightarrow> (Inl (KeyError name), fs(fn \<mapsto> Hdf5 f1))
                | Some g \<Rightarrow>
                    (let gname = last (split_on CHR ''/'' name);
                         col = [nat n, 1];
                         (err, g') = create_datasets np
                           [(''n'', [1, 1], PyInt n, Some I8, [(''unit'', ''1'')]),
                            (''r'', col, Array r, Some F8, [(''unit'', ''m'')]),
                            (''phi'', col, Array phi, Some F8, [(''unit'', ''deg'')]),
                            (''z'', col, Array z, Some F8, [(''unit'', ''m'')]),
                            (''vr'', col, Array vr, Some F8, [(''unit'', ''m/s'')]),
                            (''vphi'', col, Array vphi, Some F8, [(''unit'', ''m/s'')]),
                            (''vz'', col, Array vz, Some F8, [(''unit'', ''m/s'')]),
                            (''mass'', col, Array mass, Some F8, [(''unit'', ''amu'')]),
                            (''charge'', col, Array charge, Some I4, [(''unit'', ''e'')]),
                            (''anum'', col, Array anum, Some I4, [(''unit'', ''1'')]),
                            (''znum'', col, Array znum, Some I4, [(''unit'', ''1'')]),
                            (''weight'', col, Array weight, Some F8, [(''unit'', ''markers/s'')]),
                            (''time'', col, Array time, Some F8, [(''unit'', ''s'')]),
                            (''id'', col, Array ids, Some I8, [(''unit'', ''1'')])] g;
                         fs' = fs(fn \<mapsto> Hdf5 (f1(name \<mapsto> g')))
                     in (case err of Some e \<Rightarrow> (Inl e, fs') | None \<Rightarrow> (Inr gname, fs')))))))"

text \<open>
  \<^verbatim>\<open>mrk_prt.eval_pitch\<close>. The arithmetic of numpy on array values (elementwise, with
  broadcasting) is a parameter: addition, multiplication, division, square root and
  \<^verbatim>\<open>x**2\<close>. So are \<^verbatim>\<open>read_data\<close> of \<^verbatim>\<open>_iohelpers/fileapi.py\<close>, the handle that
  \<^verbatim>\<open>with self as h5\<close> yields and the \<^verbatim>\<open>evaluate\<close> method of the \<^verbatim>\<open>ascotpy\<close> argument,
  which calls the native library.
\<close>

record 'a np_arith =
  np_add :: "'a \<Rightarrow> 'a \<Rightarrow> 'a"
  np_mul :: "'a \<Rightarrow> 'a \<Rightarrow> 'a"
  np_div :: "'a \<Rightarrow> 'a \<Rightarrow> 'a"
  np_sqrt :: "'a \<Rightarrow> 'a"
  np_square :: "'a \<Rightarrow> 'a"

definition mrk_prt_eval_pitch ::
  "'a np_arith \<Rightarrow> error + 'h \<Rightarrow> ('h \<Rightarrow> string \<Rightarrow> error + 'a)
     \<Rightarrow> ('a \<Rightarrow> 'a \<Rightarrow> 'a \<Rightarrow> int \<Rightarrow> string \<Rightarrow> error + 'a) \<Rightarrow> error + 'a" where
  "mrk_prt_eval_pitch ar enter read_data evaluate =
     and_then enter (\<lambda>h5.
     and_then (read_data h5 ''r'') (\<lambda>r.
     and_then (read_data h5 ''z'') (\<lambda>z.
     and_then (read_data h5 ''phi'') (\<lambda>phi.
     and_then (read_data h5 ''vr'') (\<lambda>vr.
     and_then (read_data h5 ''vz'') (\<lambda>vz.
     and_then (read_data h5 ''vphi'') (\<lambda>vphi.
     and_then (read_data h5 ''mass'') (\<lambda>mass.
     and_then (evaluate r phi z 0 ''br'') (\<lambda>br.
     and_then (evaluate r phi z 0 ''bz'') (\<lambda>bz.
     and_then (evaluate r phi z 0 ''bphi'') (\<lambda>bphi.
       (let b = np_sqrt ar (np_add ar (np_add ar (np_square ar br) (np_square ar bz))
                                      (np_square ar bphi));
            v = np_sqrt ar (np_add ar (np_add ar (np_square ar vr) (np_square ar vz))
                                      (np_square ar vphi));
            pitch = np_div ar
                      (np_add ar (np_add ar (np_mul ar vr br) (np_mul ar vz bz))
                                 (np_mul ar vphi bphi))
                      (np_mul ar b v)
        in Inr pitch))))))))))))"

text \<open>Arithmetic on real numbers, one marker per value, to run the model.\<close>

definition ar_real :: "real np_arith" where
  "ar_real = \<lparr>np_add = (+), np_mul = (*), np_div = (/), np_sqrt = sqrt,
              np_square = (\<lambda>x. x ^ 2)\<rparr>"

section \<open>options.py\<close>

text \<open>
  \<^verbatim>\<open>options.write_hdf5\<close>. The dictionary is its items in iteration order; a value is any
  Python object, and \<^verbatim>\<open>np.array(data)\<close> is the parameter \<open>np_array\<close>. The test
  \<^verbatim>\<open>type(data) is not np.array\<close> compares a type with a function and always holds, so the
  conversion is always made. Values are numeric and keys are plain dataset names
  (without \<^verbatim>\<open>/\<close>).
\<close>

fun write_options ::
  "'v numpy \<Rightarrow> ('p \<Rightarrow> 'v ndarray) \<Rightarrow> (string \<times> 'p) list \<Rightarrow> 'v group
     \<Rightarrow> error option \<times> 'v group" where
  "write_options np np_array [] g = (None, g)"
| "write_options np np_array ((opt, val) # rest) g =
     (if opt \<noteq> ''qid'' \<and> opt \<noteq> ''date'' \<and> opt \<noteq> ''description''
        then (let dat = astype np F8 (np_array val)
              in (case create_dataset np g opt [asize dat] (Array dat) None [] of
                    Inl e \<Rightarrow> (Some e, g)
                  | Inr g' \<Rightarrow> write_options np np_array rest g'))
      else write_options np np_array rest g)"

definition options_write_hdf5 ::
  "'v numpy \<Rightarrow> ('p \<Rightarrow> 'v ndarray) \<Rightarrow> 'v add_group \<Rightarrow> 'v filesystem \<Rightarrow> string
     \<Rightarrow> (string \<times> 'p) list \<Rightarrow> string option \<Rightarrow> (error + string) \<times> 'v filesystem" where
  "options_write_hdf5 np np_array add_group fs fn options desc =
     and_then_in fs (h5_open_a fs fn) (\<lambda>f.
       (case add_group f ''options'' ''opt'' desc of
          (Inl e, f1) \<Rightarrow> (Inl e, fs(fn \<mapsto> Hdf5 f1))
        | (Inr name, f1) \<Rightarrow>
            (case f1 name of
               None \<Rightarrow> (Inl (KeyError name), fs(fn \<mapsto> Hdf5 f1))
             | Some g \<Rightarrow>
                 (let (err, g') = write_options np np_array options g;
                      fs' = fs(fn \<mapsto> Hdf5 (f1(name \<mapsto> g')))
                  in (case err of Some e \<Rightarrow> (Inl e, fs') | None \<Rightarrow> (Inr name, fs'))))))"

text \<open>
  \<^verbatim>\<open>options.read_hdf5\<close>. The dictionary holds the three metadata strings and one array
  per dataset. With \<^verbatim>\<open>info=True\<close> the dictionary is also parsed against
  \<^verbatim>\<open>get_default()\<close>; that part (after the file is closed) is the parameter \<open>parse\<close>.
\<close>

datatype 'v pyval = Str string | Arr "'v ndarray"

definition options_read_hdf5 ::
  "((string \<rightharpoonup> 'v pyval) \<Rightarrow> error + 'i) \<Rightarrow> 'v filesystem \<Rightarrow> string \<Rightarrow> string \<Rightarrow> bool
     \<Rightarrow> error + (string \<rightharpoonup> 'v pyval) \<times> 'i option" where
  "options_read_hdf5 parse fs fn qid info =
     (let path = ''options'' @ ''/opt-'' @ qid
      in and_then (h5_open_r fs fn) (\<lambda>f.
         and_then (h5_group f path) (\<lambda>g.
         and_then (h5_attr g ''date'') (\<lambda>date.
         and_then (h5_attr g ''description'') (\<lambda>descr.
         and_then (read_into Arr (members g)
                     [''qid'' \<mapsto> Str qid, ''date'' \<mapsto> Str date, ''description'' \<mapsto> Str descr])
           (\<lambda>out.
              if \<not> info then Inr (out, None)
              else and_then (parse out) (\<lambda>i. Inr (out, Some i))))))))"

text \<open>A parser that returns nothing, to run the reader with \<^verbatim>\<open>info=False\<close>.\<close>

definition no_parse :: "(string \<rightharpoonup> 'v pyval) \<Rightarrow> error + unit" where
  "no_parse out = Inr ()"

section \<open>libmhd.py\<close>

text \<open>
  \<^verbatim>\<open>LibMhd.evaluate\<close>. \<^verbatim>\<open>eval_mhd\<close> is inherited from \<^verbatim>\<open>LibAscot\<close>, which is not among
  the sources: it is a parameter that raises or returns a dictionary of arrays. The
  local \<^verbatim>\<open>out\<close> is \<open>None\<close> (Python's None) until it is assigned. The \<^verbatim>\<open>assert\<close>
  statement is executed, as it is unless the interpreter runs with \<^verbatim>\<open>-O\<close>.
\<close>

definition LibMhd_evaluate ::
  "('r \<Rightarrow> 'p \<Rightarrow> 'z \<Rightarrow> 't \<Rightarrow> error + (string \<rightharpoonup> 'q)) \<Rightarrow> 'r \<Rightarrow> 'p \<Rightarrow> 'z \<Rightarrow> 't \<Rightarrow> string
     \<Rightarrow> error + 'q" where
  "LibMhd_evaluate eval_mhd R phi z t quantity =
     (let out = (if quantity \<in> set [''br'', ''bphi'', ''bz'', ''er'', ''ephi'', ''ez'']
                   then and_then (eval_mhd R phi z t) (\<lambda>d.
                        and_then (getitem d quantity) (\<lambda>v. Inr (Some v)))
                 else Inr None)
      in and_then out (\<lambda>out.
           (case out of
              None \<Rightarrow> Inl (AssertionError ''Unknown quantity'')
            | Some v \<Rightarrow> Inr v)))"

section \<open>erad.py\<close>

text \<open>
  A Python string read from a file is the list of its Unicode code points. A text file
  is the text Python decodes from it (line ends translated to a line feed), or cannot
  be decoded; \<^verbatim>\<open>open(fn, 'r')\<close> raises when there is no such file. The file object is
  the part of the text not yet read, and \<^verbatim>\<open>readline\<close> returns the next line with its
  line feed and what is left.
\<close>

type_synonym pystr = "nat list"

datatype textfile = Text pystr | Undecodable

fun readline :: "pystr \<Rightarrow> pystr \<times> pystr" where
  "readline [] = ([], [])"
| "readline (c # cs) =
     (if c = 0x0A then ([c], cs)
      else (let (l, rest) = readline cs in (c # l, rest)))"

text \<open>
  \<^verbatim>\<open>s.split()\<close>: the maximal runs of characters that are not white space. White space
  is what \<^verbatim>\<open>str.isspace\<close> accepts: the ASCII controls 9 to 13 and 28 to 31, the space,
  and the Unicode characters U+0085, U+00A0, U+1680, U+2000 to U+200A, U+2028, U+2029,
  U+202F, U+205F and U+3000.
\<close>

definition is_space :: "nat \<Rightarrow> bool" where
  "is_space c =
     ((0x09 \<le> c \<and> c \<le> 0x0D) \<or> (0x1C \<le> c \<and> c \<le> 0x20) \<or> c = 0x85 \<or> c = 0xA0
      \<or> c = 0x1680 \<or> (0x2000 \<le> c \<and> c \<le> 0x200A) \<or> c = 0x2028 \<or> c = 0x2029
      \<or> c = 0x202F \<or> c = 0x205F \<or> c = 0x3000)"

fun split_ws_from :: "pystr \<Rightarrow> pystr \<Rightarrow> pystr list" where
  "split_ws_from w [] = (if w = [] then [] else [w])"
| "split_ws_from w (c # cs) =
     (if is_space c
        then (if w = [] then split_ws_from [] cs else w # split_ws_from [] cs)
      else split_ws_from (w @ [c]) cs)"

definition split_ws :: "pystr \<Rightarrow> pystr list" where
  "split_ws s = split_ws_from [] s"

text \<open>
  \<^verbatim>\<open>a[:, c]\<close> for the array \<^verbatim>\<open>np.loadtxt\<close> returned, which has at most two axes:
  IndexError unless the array is two-dimensional and has a column \<open>c\<close>.
\<close>

definition column :: "'v ndarray \<Rightarrow> nat \<Rightarrow> error + 'v list" where
  "column a c =
     (case shape a of
        [m, n] \<Rightarrow>
          if c < n then Inr (map (\<lambda>i. data a ! (i * n + c)) [0..<m])
          else Inl (IndexError ''index is out of bounds for axis 1'')
      | _ \<Rightarrow> Inl (IndexError ''too many indices for array''))"

text \<open>
  The floating-point operations of \<^verbatim>\<open>read_erad\<close> are parameters: subtraction, division,
  the comparisons \<^verbatim>\<open>>\<close> and \<^verbatim>\<open><\<close>, the constant 1.0001, and the numpy functions
  \<^verbatim>\<open>loadtxt\<close> (on the unread part of the file), \<^verbatim>\<open>amin\<close>, \<^verbatim>\<open>amax\<close>, \<^verbatim>\<open>linspace\<close> (which
  is handed the string \<^verbatim>\<open>data['n_rho']\<close> as the number of points) and \<^verbatim>\<open>interp\<close>.
\<close>

record 'v np_float =
  fsub :: "'v \<Rightarrow> 'v \<Rightarrow> 'v"
  fdiv :: "'v \<Rightarrow> 'v \<Rightarrow> 'v"
  fgt :: "'v \<Rightarrow> 'v \<Rightarrow> bool"
  flt :: "'v \<Rightarrow> 'v \<Rightarrow> bool"
  tol :: 'v
  loadtxt :: "pystr \<Rightarrow> error + 'v ndarray"
  amin :: "'v list \<Rightarrow> 'v"
  amax :: "'v list \<Rightarrow> 'v"
  linspace :: "'v \<Rightarrow> 'v \<Rightarrow> pystr \<Rightarrow> error + 'v list"
  interp :: "'v list \<Rightarrow> 'v list \<Rightarrow> 'v list \<Rightarrow> error + 'v list"

text \<open>\<^verbatim>\<open>np.diff(a)\<close>: \<^verbatim>\<open>a[i+1] - a[i]\<close> for every \<open>i\<close>.\<close>

fun np_diff :: "'v np_float \<Rightarrow> 'v list \<Rightarrow> 'v list" where
  "np_diff fl (x # y # ys) = fsub fl y x # np_diff fl (y # ys)"
| "np_diff fl _ = []"

text \<open>
  Python's \<^verbatim>\<open>max\<close> and \<^verbatim>\<open>min\<close> on a sequence: the first element, replaced by each later
  one that compares greater (less); ValueError on an empty sequence.
\<close>

definition py_max :: "'v np_float \<Rightarrow> 'v list \<Rightarrow> error + 'v" where
  "py_max fl xs =
     (case xs of
        [] \<Rightarrow> Inl (ValueError ''max() arg is an empty sequence'')
      | x # rest \<Rightarrow> Inr (foldl (\<lambda>m y. if fgt fl y m then y else m) x rest))"

definition py_min :: "'v np_float \<Rightarrow> 'v list \<Rightarrow> error + 'v" where
  "py_min fl xs =
     (case xs of
        [] \<Rightarrow> Inl (ValueError ''min() arg is an empty sequence'')
      | x # rest \<Rightarrow> Inr (foldl (\<lambda>m y. if flt fl y m then y else m) x rest))"

record 'v erad =
  comm1 :: pystr
  n_rho :: pystr
  rho :: "'v list"
  dV_drho :: "'v list"

text \<open>
  \<^verbatim>\<open>read_erad\<close>: the value returned or the exception raised, and the lines printed.
\<close>

definition read_erad ::
  "'v np_float \<Rightarrow> (string \<rightharpoonup> textfile) \<Rightarrow> string \<Rightarrow> (error + 'v erad) \<times> string list" where
  "read_erad fl fs fn =
     (case fs fn of
        None \<Rightarrow> (Inl (OSError ''No such file or directory''), [])
      | Some Undecodable \<Rightarrow> (Inl (UnicodeDecodeError ''codec can't decode byte''), [])
      | Some (Text content) \<Rightarrow>
          (let (line1, rest1) = readline content;
               (line2, rest2) = readline rest1
           in (case split_ws line2 of
                 [] \<Rightarrow> (Inl (IndexError ''list index out of range''), [])
               | tok # toks \<Rightarrow>
                   and_then_in [] (loadtxt fl rest2) (\<lambda>h5data.
                   and_then_in [] (column h5data 0) (\<lambda>col0.
                   and_then_in [] (column h5data 1) (\<lambda>col1.
                     (let dat = \<lparr>comm1 = line1, n_rho = tok, rho = col0, dV_drho = col1\<rparr>;
                          diff = np_diff fl (rho dat)
                      in and_then_in [] (py_max fl diff) (\<lambda>mx.
                         and_then_in [] (py_min fl diff) (\<lambda>mn.
                           if fgt fl (fdiv fl mx mn) (tol fl)
                             then (let out = [''Warning! Interpolating dV_drho to uniform grid'']
                                   in and_then_in out
                                        (linspace fl (amin fl (rho dat)) (amax fl (rho dat))
                                           (n_rho dat)) (\<lambda>new_rho.
                                      and_then_in out
                                        (interp fl new_rho (rho dat) (dV_drho dat)) (\<lambda>dv.
                                        (Inr (dat\<lparr>dV_drho := dv, rho := new_rho\<rparr>), out))))
                           else (Inr dat, []))))))))))"

text \<open>
  Integers standing for the floats, and a \<^verbatim>\<open>loadtxt\<close> stand-in that returns a fixed
  table, to run the model.
\<close>

definition fl_int :: "int ndarray \<Rightarrow> int np_float" where
  "fl_int table =
     \<lparr>fsub = (-), fdiv = (div), fgt = (\<lambda>x y. y < x), flt = (<), tol = 1,
      loadtxt = (\<lambda>s. Inr table), amin = Min \<circ> set, amax = Max \<circ> set,
      linspace = (\<lambda>a b n. Inl (TypeError ''str object cannot be interpreted as an integer'')),
      interp = (\<lambda>x xp fp. Inr fp)\<rparr>"

section \<open>Facts about the model\<close>

subsection \<open>Sequencing\<close>

lemma and_then_simps [simp]:
  "and_then (Inl e) f = Inl e" "and_then (Inr x) f = f x"
  by (simp_all add: and_then_def)

lemma and_then_in_simps [simp]:
  "and_then_in fs (Inl e) g = (Inl e, fs)" "and_then_in fs (Inr x) g = g x"
  by (simp_all add: and_then_in_def)

subsection \<open>Splitting a path\<close>

lemma split_on_nonempty: "split_on c xs \<noteq> []"
  by (induction xs) (auto split: list.splits)

lemma split_on_absent: "c \<notin> set xs \<Longrightarrow> split_on c xs = [xs]"
  by (induction xs) auto

lemma split_on_present: "c \<in> set xs \<Longrightarrow> \<exists>w v vs. split_on c xs = w # v # vs"
proof (induction xs)
  case Nil
  then show ?case by simp
next
  case (Cons x xs)
  show ?case
  proof (cases "x = c")
    case True
    then show ?thesis by (cases "split_on c xs") (auto simp: split_on_nonempty)
  next
    case False
    with Cons obtain w v vs where "split_on c xs = w # v # vs" by auto
    with False show ?thesis by simp
  qed
qed

lemma last_split_on_append:
  "c \<notin> set q \<Longrightarrow> last (split_on c (p @ c # q)) = q"
proof (induction p)
  case Nil
  then show ?case by (simp add: split_on_absent)
next
  case (Cons x p)
  obtain w v vs where "split_on c (p @ c # q) = w # v # vs"
    using split_on_present [of c "p @ c # q"] by auto
  with Cons show ?case by simp
qed

subsection \<open>Elements in C order\<close>

lemma length_concat_upt:
  "(\<And>i. i < n \<Longrightarrow> length (f i) = m) \<Longrightarrow> length (concat (map f [0..<n])) = n * m"
  by (induction n) auto

lemma nth_concat_upt:
  assumes "\<And>i. i < n \<Longrightarrow> length (f i) = m" and "i < n" and "j < m"
  shows "concat (map f [0..<n]) ! (i * m + j) = f i ! j"
  using assms
proof (induction n)
  case 0
  then show ?case by simp
next
  case (Suc n)
  have len: "length (concat (map f [0..<n])) = n * m"
    using Suc.prems(1) by (simp add: length_concat_upt)
  show ?case
  proof (cases "i < n")
    case True
    have "i * m + j < n * m"
    proof -
      have "i * m + j < i * m + m" using Suc.prems(3) by simp
      also have "\<dots> = Suc i * m" by simp
      also have "\<dots> \<le> n * m" using True by (intro mult_le_mono1) simp
      finally show ?thesis .
    qed
    then show ?thesis
      using Suc.IH [OF _ True Suc.prems(3)] Suc.prems(1) len by (simp add: nth_append)
  next
    case False
    then have "i = n" using Suc.prems(2) by simp
    then show ?thesis using len Suc.prems by (simp add: nth_append)
  qed
qed

lemma index2_less:
  assumes "j < n1" and "k < n2"
  shows "j * n2 + k < n1 * (n2::nat)"
proof -
  have "j * n2 + k < Suc j * n2" using assms(2) by simp
  also have "\<dots> \<le> n1 * n2" using assms(1) by (intro mult_le_mono1) simp
  finally show ?thesis .
qed

lemma index3_less:
  assumes "i < n0" and "j < n1" and "k < n2"
  shows "i * n1 * n2 + j * n2 + k < n0 * n1 * (n2::nat)"
proof -
  have "i * (n1 * n2) + (j * n2 + k) < n0 * (n1 * n2)"
    by (rule index2_less [OF assms(1) index2_less [OF assms(2,3)]])
  then show ?thesis by (simp add: mult.assoc add.assoc)
qed

lemma length_c_order3: "length (c_order3 f n0 n1 n2) = n0 * n1 * n2"
proof -
  have inner: "\<And>i. length (concat (map (\<lambda>j. map (\<lambda>k. f i j k) [0..<n2]) [0..<n1])) = n1 * n2"
    by (rule length_concat_upt) simp
  have "length (c_order3 f n0 n1 n2) = n0 * (n1 * n2)"
    unfolding c_order3_def by (rule length_concat_upt) (rule inner)
  then show ?thesis by (simp add: mult.assoc)
qed

lemma nth_c_order3:
  assumes "i < n0" and "j < n1" and "k < n2"
  shows "c_order3 f n0 n1 n2 ! (i * n1 * n2 + j * n2 + k) = f i j k"
proof -
  let ?row = "\<lambda>i. concat (map (\<lambda>j. map (\<lambda>k. f i j k) [0..<n2]) [0..<n1])"
  have inner: "\<And>i. length (?row i) = n1 * n2"
    by (rule length_concat_upt) simp
  have jk: "j * n2 + k < n1 * n2"
    by (rule index2_less [OF assms(2,3)])
  have "c_order3 f n0 n1 n2 ! (i * (n1 * n2) + (j * n2 + k)) = ?row i ! (j * n2 + k)"
    unfolding c_order3_def by (rule nth_concat_upt [OF inner assms(1) jk])
  also have "\<dots> = map (\<lambda>k. f i j k) [0..<n2] ! k"
    by (rule nth_concat_upt [OF _ assms(2,3)]) simp
  also have "\<dots> = f i j k" using assms(3) by simp
  finally show ?thesis by (simp add: mult.assoc add.assoc)
qed

lemma c_order3_cong:
  assumes "\<And>i j k. i < n0 \<Longrightarrow> j < n1 \<Longrightarrow> k < n2 \<Longrightarrow> f i j k = g i j k"
  shows "c_order3 f n0 n1 n2 = c_order3 g n0 n1 n2"
proof -
  have row: "concat (map (\<lambda>j. map (\<lambda>k. f i j k) [0..<n2]) [0..<n1])
       = concat (map (\<lambda>j. map (\<lambda>k. g i j k) [0..<n2]) [0..<n1])" if "i < n0" for i
  proof -
    have "map (\<lambda>j. map (\<lambda>k. f i j k) [0..<n2]) [0..<n1]
          = map (\<lambda>j. map (\<lambda>k. g i j k) [0..<n2]) [0..<n1]"
      by (rule map_cong [OF refl]) (auto simp: assms that)
    then show ?thesis by (rule arg_cong)
  qed
  have "map (\<lambda>i. concat (map (\<lambda>j. map (\<lambda>k. f i j k) [0..<n2]) [0..<n1])) [0..<n0]
        = map (\<lambda>i. concat (map (\<lambda>j. map (\<lambda>k. g i j k) [0..<n2]) [0..<n1])) [0..<n0]"
    by (rule map_cong [OF refl]) (auto simp: row)
  then show ?thesis
    unfolding c_order3_def by (rule arg_cong)
qed

lemma map_c_order3:
  "map h (c_order3 f n0 n1 n2) = c_order3 (\<lambda>i j k. h (f i j k)) n0 n1 n2"
  by (simp add: c_order3_def map_concat comp_def)

lemma c_order3_nth_self:
  assumes "length xs = n0 * n1 * n2"
  shows "c_order3 (\<lambda>i j k. xs ! (i * n1 * n2 + j * n2 + k)) n0 n1 n2 = xs"
proof (rule nth_equalityI)
  show "length (c_order3 (\<lambda>i j k. xs ! (i * n1 * n2 + j * n2 + k)) n0 n1 n2) = length xs"
    by (simp add: length_c_order3 assms)
next
  fix p
  assume "p < length (c_order3 (\<lambda>i j k. xs ! (i * n1 * n2 + j * n2 + k)) n0 n1 n2)"
  then have p: "p < n0 * (n1 * n2)" by (simp add: length_c_order3 mult.assoc)
  have pos: "0 < n1 * n2"
    using p by (cases "n1 * n2 = 0") auto
  then have pos2: "0 < n2" by simp
  define i where "i = p div (n1 * n2)"
  define r where "r = p mod (n1 * n2)"
  define j where "j = r div n2"
  define k where "k = r mod n2"
  have i: "i < n0"
    unfolding i_def using p pos by (metis less_mult_imp_div_less mult.commute)
  have r: "r < n1 * n2" unfolding r_def using pos by simp
  have j: "j < n1"
    unfolding j_def using r by (metis less_mult_imp_div_less)
  have k: "k < n2" unfolding k_def using pos2 by simp
  have "r = j * n2 + k" unfolding j_def k_def by (rule div_mult_mod_eq [symmetric])
  moreover have "p = i * (n1 * n2) + r" unfolding i_def r_def by (rule div_mult_mod_eq [symmetric])
  ultimately have "p = i * n1 * n2 + j * n2 + k" by (simp add: mult.assoc)
  then show "c_order3 (\<lambda>i j k. xs ! (i * n1 * n2 + j * n2 + k)) n0 n1 n2 ! p = xs ! p"
    using nth_c_order3 [OF i j k, of "\<lambda>i j k. xs ! (i * n1 * n2 + j * n2 + k)"] by simp
qed

subsection \<open>Transposition\<close>

lemma transpose_210_involution:
  assumes "wf_ndarray a" and "shape a = [n0, n1, n2]"
  shows "\<exists>b. transpose_210 a = Inr b \<and> shape b = [n2, n1, n0] \<and> wf_ndarray b
            \<and> dtype b = dtype a \<and> transpose_210 b = Inr a"
proof -
  let ?T = "c_order3 (\<lambda>k j i. data a ! (i * n1 * n2 + j * n2 + k)) n2 n1 n0"
  let ?b = "a\<lparr>shape := [n2, n1, n0], data := ?T\<rparr>"
  have len: "length (data a) = n0 * n1 * n2"
    using assms by (simp add: wf_ndarray_def)
  have b: "transpose_210 a = Inr ?b"
    using assms(2) by (simp add: transpose_210_def)
  have wfb: "wf_ndarray ?b"
    by (simp add: wf_ndarray_def length_c_order3)
  have "c_order3 (\<lambda>i j k. ?T ! (k * n1 * n0 + j * n0 + i)) n0 n1 n2
        = c_order3 (\<lambda>i j k. data a ! (i * n1 * n2 + j * n2 + k)) n0 n1 n2"
    by (rule c_order3_cong) (simp add: nth_c_order3)
  also have "\<dots> = data a" by (rule c_order3_nth_self [OF len])
  finally have "transpose_210 ?b = Inr a"
    using assms(2) by (simp add: transpose_210_def)
  with b wfb show ?thesis by simp
qed

lemma transpose_210_astype:
  assumes "wf_ndarray a" and "shape a = [n0, n1, n2]" and "transpose_210 a = Inr b"
  shows "transpose_210 (astype np t a) = Inr (astype np t b)"
proof (cases "dtype a = t")
  case True
  moreover have "dtype b = dtype a"
    using assms(2,3) by (auto simp: transpose_210_def)
  ultimately show ?thesis using assms(3) by (simp add: astype_def)
next
  case False
  let ?h = "convert np (dtype a) t"
  have len: "length (data a) = n0 * n1 * n2"
    using assms by (simp add: wf_ndarray_def)
  have b: "b = a\<lparr>shape := [n2, n1, n0],
                 data := c_order3 (\<lambda>k j i. data a ! (i * n1 * n2 + j * n2 + k)) n2 n1 n0\<rparr>"
    using assms(2,3) by (simp add: transpose_210_def)
  have "c_order3 (\<lambda>k j i. map ?h (data a) ! (i * n1 * n2 + j * n2 + k)) n2 n1 n0
        = c_order3 (\<lambda>k j i. ?h (data a ! (i * n1 * n2 + j * n2 + k))) n2 n1 n0"
    by (rule c_order3_cong) (simp add: len index3_less)
  also have "\<dots> = map ?h (c_order3 (\<lambda>k j i. data a ! (i * n1 * n2 + j * n2 + k)) n2 n1 n0)"
    by (simp add: map_c_order3)
  finally show ?thesis
    using False assms(2) by (simp add: astype_def transpose_210_def b)
qed

lemma astype_props [simp]:
  "shape (astype np t a) = shape a" "dtype (astype np t a) = t"
  "asize (astype np t a) = asize a"
  by (simp_all add: astype_def asize_def)

lemma wf_astype [simp]: "wf_ndarray (astype np t a) = wf_ndarray a"
  by (simp add: astype_def wf_ndarray_def)

subsection \<open>Creating datasets\<close>

lemma astype_same: "dtype a = t \<Longrightarrow> astype np t a = a"
  by (simp add: astype_def)

lemma create_dataset_array:
  assumes "prod_list shp = asize a" and "name \<notin> set (map fst (members g))"
  shows "create_dataset np g name shp (Array a) (Some t) ats
         = Inr (g\<lparr>members := members g @ [(name, \<lparr>ds = (astype np t a)\<lparr>shape := shp\<rparr>, attrs = ats\<rparr>)]\<rparr>)"
  using assms by (simp add: create_dataset_def array_for_new_object_def)

lemma create_dataset_float:
  assumes "name \<notin> set (map fst (members g))"
  shows "create_dataset np g name [n] (PyFloat x) (Some F8) ats
         = (if n = 1 then Inr (g\<lparr>members := members g @ [(name, \<lparr>ds = \<lparr>dtype = F8, shape = [n], data = [x]\<rparr>, attrs = ats\<rparr>)]\<rparr>)
            else Inl (ValueError ''Shape tuple is incompatible with data''))"
  using assms by (simp add: create_dataset_def array_for_new_object_def astype_same asize_def)

lemma create_dataset_int:
  assumes "from_int np t i = Inr v" and "name \<notin> set (map fst (members g))"
  shows "create_dataset np g name shp (PyInt i) (Some t) ats
         = (if prod_list shp = 1 then Inr (g\<lparr>members := members g @ [(name, \<lparr>ds = \<lparr>dtype = t, shape = shp, data = [v]\<rparr>, attrs = ats\<rparr>)]\<rparr>)
            else Inl (ValueError ''Shape tuple is incompatible with data''))"
  using assms by (simp add: create_dataset_def array_for_new_object_def asize_def)

lemma create_dataset_int_fail:
  "from_int np t i = Inl e \<Longrightarrow> create_dataset np g name shp (PyInt i) (Some t) ats = Inl e"
  by (simp add: create_dataset_def array_for_new_object_def)

subsection \<open>Reading datasets\<close>

lemma read_into_arrays:
  assumes "\<And>k d. (k, d) \<in> set ms \<Longrightarrow> shape (ds d) \<noteq> []"
  shows "read_into h ms out = Inr (foldl (\<lambda>out (k, d). out(k \<mapsto> h (ds d))) out ms)"
  using assms
proof (induction ms arbitrary: out)
  case Nil
  then show ?case by simp
next
  case (Cons kd ms)
  obtain k d where kd: "kd = (k, d)" by (cases kd)
  have "shape (ds d) \<noteq> []"
    using Cons.prems [of k d] kd by simp
  then have "read_into h (kd # ms) out = read_into h ms (out(k \<mapsto> h (ds d)))"
    using kd by (simp add: read_dataset_def)
  also have "\<dots> = Inr (foldl (\<lambda>out (k, d). out(k \<mapsto> h (ds d))) (out(k \<mapsto> h (ds d))) ms)"
    by (rule Cons.IH) (use Cons.prems in auto)
  also have "foldl (\<lambda>out (k, d). out(k \<mapsto> h (ds d))) (out(k \<mapsto> h (ds d))) ms
             = foldl (\<lambda>out (k, d). out(k \<mapsto> h (ds d))) out (kd # ms)"
    unfolding kd by (simp only: foldl.simps prod.case)
  finally show ?case .
qed

subsection \<open>Rounding toward zero\<close>

lemma truncated_c_cast: "t \<noteq> F8 \<Longrightarrow> truncated t v (c_cast other s t v)"
  by (cases v) (simp_all add: truncated_def c_cast_def)

lemma list_all2_truncated:
  "t \<noteq> F8 \<Longrightarrow> list_all2 (truncated t) xs (map (c_cast other s t) xs)"
  by (induction xs) (simp_all add: truncated_c_cast)

subsection \<open>Writing and reading options\<close>

lemma ndarray_reshape_eq:
  "a\<lparr>shape := s\<rparr> = \<lparr>dtype = dtype a, shape = s, data = data a\<rparr>"
  by (cases a) simp

lemma write_options_members:
  assumes "distinct (map fst opts)"
    and "\<And>k. k \<in> set (map fst opts) \<Longrightarrow> k \<notin> set (map fst (members g))"
  shows "write_options np np_array opts g =
           (None, g\<lparr>members := members g @
              map (\<lambda>(k, v). (k, \<lparr>ds = \<lparr>dtype = F8, shape = [asize (np_array v)],
                                        data = data (astype np F8 (np_array v))\<rparr>,
                                  attrs = []\<rparr>))
                (filter (\<lambda>(k, v). k \<notin> {''qid'', ''date'', ''description''}) opts)\<rparr>)"
  using assms
proof (induction opts arbitrary: g)
  case Nil
  then show ?case by simp
next
  case (Cons kv opts)
  obtain k v where kv: "kv = (k, v)" by (cases kv)
  have dist: "distinct (map fst opts)" and knew: "k \<notin> set (map fst opts)"
    using Cons.prems(1) kv by simp_all
  show ?case
  proof (cases "k \<in> {''qid'', ''date'', ''description''}")
    case True
    have "\<And>k'. k' \<in> set (map fst opts) \<Longrightarrow> k' \<notin> set (map fst (members g))"
      using Cons.prems(2) by simp
    from Cons.IH [OF dist this] True kv show ?thesis by auto
  next
    case False
    let ?d = "\<lparr>ds = \<lparr>dtype = F8, shape = [asize (np_array v)],
                       data = data (astype np F8 (np_array v))\<rparr>, attrs = []\<rparr>"
    let ?g = "g\<lparr>members := members g @ [(k, ?d)]\<rparr>"
    have kg: "k \<notin> set (map fst (members g))"
      using Cons.prems(2) kv by simp
    have cd: "create_dataset np g k [asize (astype np F8 (np_array v))]
                (Array (astype np F8 (np_array v))) None [] = Inr ?g"
      using kg by (simp add: create_dataset_def array_for_new_object_def ndarray_reshape_eq)
    have "\<And>k'. k' \<in> set (map fst opts) \<Longrightarrow> k' \<notin> set (map fst (members ?g))"
      using Cons.prems(2) knew by auto
    from Cons.IH [OF dist this] cd False kv show ?thesis
      by (simp add: Let_def)
  qed
qed

lemma foldl_update_lookup:
  "distinct (map fst ms) \<Longrightarrow>
   foldl (\<lambda>out (k, d). out(k \<mapsto> h d)) m0 ms k
     = (case map_of ms k of None \<Rightarrow> m0 k | Some d \<Rightarrow> Some (h d))"
proof (induction ms arbitrary: m0)
  case Nil
  then show ?case by simp
next
  case (Cons kd ms)
  obtain k' d' where kd: "kd = (k', d')" by (cases kd)
  have dist: "distinct (map fst ms)" and new: "k' \<notin> fst ` set ms"
    using Cons.prems kd by simp_all
  have step: "foldl (\<lambda>out (k, d). out(k \<mapsto> h d)) m0 (kd # ms) k
        = (case map_of ms k of None \<Rightarrow> (m0(k' \<mapsto> h d')) k | Some d \<Rightarrow> Some (h d))"
  proof -
    have "foldl (\<lambda>out (k, d). out(k \<mapsto> h d)) m0 (kd # ms) k
          = foldl (\<lambda>out (k, d). out(k \<mapsto> h d)) (m0(k' \<mapsto> h d')) ms k"
      by (simp add: kd)
    also have "\<dots> = (case map_of ms k of None \<Rightarrow> (m0(k' \<mapsto> h d')) k
                       | Some d \<Rightarrow> Some (h d))"
      by (rule Cons.IH [OF dist])
    finally show ?thesis .
  qed
  show ?case
  proof (cases "k = k'")
    case True
    then have none: "map_of ms k = None"
      using new by (simp add: map_of_eq_None_iff)
    have "foldl (\<lambda>out (k, d). out(k \<mapsto> h d)) m0 (kd # ms) k = (m0(k' \<mapsto> h d')) k"
      unfolding step none by (simp only: option.case)
    also have "\<dots> = Some (h d')"
      using True by simp
    also have "\<dots> = (case map_of (kd # ms) k of None \<Rightarrow> m0 k | Some d \<Rightarrow> Some (h d))"
      using True kd by simp
    finally show ?thesis .
  next
    case False
    have "(case map_of ms k of None \<Rightarrow> (m0(k' \<mapsto> h d')) k | Some d \<Rightarrow> Some (h d))
          = (case map_of (kd # ms) k of None \<Rightarrow> m0 k | Some d \<Rightarrow> Some (h d))"
      using False kd by (simp split: option.splits)
    with step show ?thesis by (simp only:)
  qed
qed

lemma map_of_stored:
  assumes "distinct (map fst opts)" and "(k, v) \<in> set opts" and "P k"
  shows "map_of (map (\<lambda>(k, v). (k, h v)) (filter (\<lambda>(k, v). P k) opts)) k = Some (h v)"
  using assms
proof (induction opts)
  case Nil
  then show ?case by simp
next
  case (Cons kv opts)
  obtain k' v' where kv: "kv = (k', v')" by (cases kv)
  show ?case
  proof (cases "k' = k")
    case True
    then have "k \<notin> fst ` set opts" using Cons.prems(1) kv by simp
    then have "(k, v) \<notin> set opts" by force
    then have "v' = v" using Cons.prems(2) kv True by simp
    then show ?thesis using True kv Cons.prems(3) by simp
  next
    case False
    then have "(k, v) \<in> set opts" using Cons.prems(2) kv by auto
    moreover have "distinct (map fst opts)" using Cons.prems(1) by simp
    ultimately show ?thesis using Cons.IH Cons.prems(3) False kv by simp
  qed
qed

lemma distinct_stored:
  "distinct (map fst opts) \<Longrightarrow>
   distinct (map fst (map (\<lambda>(k, v). (k, h v)) (filter (\<lambda>(k, v). P k) opts)))"
proof (induction opts)
  case Nil
  then show ?case by simp
next
  case (Cons kv opts)
  then show ?case by (cases kv) (auto simp: image_iff)
qed

lemma options_write_fresh:
  fixes np :: "'v numpy" and np_array :: "'p \<Rightarrow> 'v ndarray" and add_group :: "'v add_group"
  assumes "distinct (map fst options)"
    and "h5_open_a fs fn = Inr f"
    and "add_group f ''options'' ''opt'' desc = (Inr name, f1)"
    and "f1 name = Some g" and "members g = []"
  shows "options_write_hdf5 np np_array add_group fs fn options desc
         = (Inr name,
            fs(fn \<mapsto> Hdf5 (f1(name \<mapsto> g\<lparr>members :=
              map (\<lambda>(k, v). (k, \<lparr>ds = \<lparr>dtype = F8, shape = [asize (np_array v)],
                                        data = data (astype np F8 (np_array v))\<rparr>,
                                  attrs = []\<rparr>))
                (filter (\<lambda>(k, v). k \<notin> {''qid'', ''date'', ''description''}) options)\<rparr>))))"
proof -
  have "\<And>k. k \<in> set (map fst options) \<Longrightarrow> k \<notin> set (map fst (members g))"
    using assms(5) by simp
  from write_options_members [OF assms(1) this, of np np_array] assms(2-5)
  show ?thesis
    by (simp add: options_write_hdf5_def)
qed

section \<open>The claims\<close>

subsection \<open>E_3DS: writing and reading the field grid\<close>

text \<open>
  Claim C1, as the code has it. For arrays \<open>er\<close>, \<open>ephi\<close>, \<open>ez\<close> of shape
  \<open>(nr, nphi, nz)\<close>, \<^verbatim>\<open>E_3DS.write_hdf5\<close> on a file that opens, with add_group returning
  the fresh group \<^verbatim>\<open>/efield/E_3DS_<qid>\<close>, returns \<^verbatim>\<open>E_3DS_<qid>\<close>, and
  \<^verbatim>\<open>E_3DS.read_hdf5\<close> with that qid then returns under \<^verbatim>\<open>er\<close>, \<^verbatim>\<open>ephi\<close>, \<^verbatim>\<open>ez\<close> the
  inputs converted to float64, in their original shape and element order: the
  (2,1,0) transposition of the writer is exactly undone by the one of the reader.
  A float64 input comes back equal to itself.
\<close>

theorem E_3DS_roundtrip:
  fixes np :: "'v numpy" and add_group :: "'v add_group"
  assumes wf: "wf_ndarray er" "wf_ndarray ephi" "wf_ndarray ez"
    and shp: "map int (shape er) = [nr, nphi, nz]" "map int (shape ephi) = [nr, nphi, nz]"
             "map int (shape ez) = [nr, nphi, nz]"
    and opn: "h5_open_a fs fn = Inr f"
    and grp: "add_group f ''efield'' ''E_3DS'' desc = (Inr (''/efield/E_3DS_'' @ qid), f1)"
    and fresh: "f1 (''/efield/E_3DS_'' @ qid) = Some g" "members g = []"
    and ints: "from_int np I4 nr = Inr vnr" "from_int np I4 nphi = Inr vnphi"
              "from_int np I4 nz = Inr vnz"
    and qid: "CHR ''/'' \<notin> set qid"
  shows "\<exists>fs' out.
           E_3DS_write_hdf5 np add_group fs fn rmin rmax nr zmin zmax nz phimin phimax nphi
               er ephi ez desc = (Inr (''E_3DS_'' @ qid), fs')
         \<and> E_3DS_read_hdf5 fs' fn qid = Inr out
         \<and> out ''er'' = Some (astype np F8 er)
         \<and> out ''ephi'' = Some (astype np F8 ephi)
         \<and> out ''ez'' = Some (astype np F8 ez)
         \<and> (dtype er = F8 \<longrightarrow> out ''er'' = Some er)
         \<and> (dtype ephi = F8 \<longrightarrow> out ''ephi'' = Some ephi)
         \<and> (dtype ez = F8 \<longrightarrow> out ''ez'' = Some ez)"
proof -
  define n0 where n0: "n0 = nat nr"
  define n1 where n1: "n1 = nat nphi"
  define n2 where n2: "n2 = nat nz"
  have s: "shape er = [n0, n1, n2]" "shape ephi = [n0, n1, n2]" "shape ez = [n0, n1, n2]"
    using shp unfolding n0 n1 n2 by (auto simp: map_eq_Cons_conv)
  obtain er' where er': "transpose_210 er = Inr er'" "shape er' = [n2, n1, n0]"
      "wf_ndarray er'" "transpose_210 er' = Inr er"
    using transpose_210_involution [OF wf(1) s(1)] by blast
  obtain ephi' where ephi': "transpose_210 ephi = Inr ephi'" "shape ephi' = [n2, n1, n0]"
      "wf_ndarray ephi'" "transpose_210 ephi' = Inr ephi"
    using transpose_210_involution [OF wf(2) s(2)] by blast
  obtain ez' where ez': "transpose_210 ez = Inr ez'" "shape ez' = [n2, n1, n0]"
      "wf_ndarray ez'" "transpose_210 ez' = Inr ez"
    using transpose_210_involution [OF wf(3) s(3)] by blast
  have t: "transpose_210 (astype np F8 er') = Inr (astype np F8 er)"
      "transpose_210 (astype np F8 ephi') = Inr (astype np F8 ephi)"
      "transpose_210 (astype np F8 ez') = Inr (astype np F8 ez)"
    using transpose_210_astype [OF er'(3) er'(2) er'(4)]
      transpose_210_astype [OF ephi'(3) ephi'(2) ephi'(4)]
      transpose_210_astype [OF ez'(3) ez'(2) ez'(4)] by simp_all
  have keep: "(astype np F8 er')\<lparr>shape := [n2, n1, n0]\<rparr> = astype np F8 er'"
      "(astype np F8 ephi')\<lparr>shape := [n2, n1, n0]\<rparr> = astype np F8 ephi'"
      "(astype np F8 ez')\<lparr>shape := [n2, n1, n0]\<rparr> = astype np F8 ez'"
    using er'(2) ephi'(2) ez'(2) by (simp_all add: astype_def)
  have name: "last (split_on CHR ''/'' (''/efield/E_3DS_'' @ qid)) = ''E_3DS_'' @ qid"
    using last_split_on_append [OF _, of "CHR ''/''" "''E_3DS_'' @ qid" "''/efield''"] qid
    by simp
  let ?ms = "[(''rmin'', \<lparr>ds = \<lparr>dtype = F8, shape = [1], data = [rmin]\<rparr>, attrs = []\<rparr>),
      (''rmax'', \<lparr>ds = \<lparr>dtype = F8, shape = [1], data = [rmax]\<rparr>, attrs = []\<rparr>),
      (''nr'', \<lparr>ds = \<lparr>dtype = I4, shape = [1], data = [vnr]\<rparr>, attrs = []\<rparr>),
      (''phimin'', \<lparr>ds = \<lparr>dtype = F8, shape = [1], data = [phimin]\<rparr>, attrs = []\<rparr>),
      (''phimax'', \<lparr>ds = \<lparr>dtype = F8, shape = [1], data = [phimax]\<rparr>, attrs = []\<rparr>),
      (''nphi'', \<lparr>ds = \<lparr>dtype = I4, shape = [1], data = [vnphi]\<rparr>, attrs = []\<rparr>),
      (''zmin'', \<lparr>ds = \<lparr>dtype = F8, shape = [1], data = [zmin]\<rparr>, attrs = []\<rparr>),
      (''zmax'', \<lparr>ds = \<lparr>dtype = F8, shape = [1], data = [zmax]\<rparr>, attrs = []\<rparr>),
      (''nz'', \<lparr>ds = \<lparr>dtype = I4, shape = [1], data = [vnz]\<rparr>, attrs = []\<rparr>),
      (''er'', \<lparr>ds = astype np F8 er', attrs = []\<rparr>),
      (''ephi'', \<lparr>ds = astype np F8 ephi', attrs = []\<rparr>),
      (''ez'', \<lparr>ds = astype np F8 ez', attrs = []\<rparr>)]"
  let ?g = "g\<lparr>members := ?ms\<rparr>"
  let ?fs = "fs(fn \<mapsto> Hdf5 (f1(''/efield/E_3DS_'' @ qid \<mapsto> ?g)))"
  have cd: "create_datasets np
       [(''rmin'', [1], PyFloat rmin, Some F8, []),
        (''rmax'', [1], PyFloat rmax, Some F8, []),
        (''nr'', [1], PyInt nr, Some I4, []),
        (''phimin'', [1], PyFloat phimin, Some F8, []),
        (''phimax'', [1], PyFloat phimax, Some F8, []),
        (''nphi'', [1], PyInt nphi, Some I4, []),
        (''zmin'', [1], PyFloat zmin, Some F8, []),
        (''zmax'', [1], PyFloat zmax, Some F8, []),
        (''nz'', [1], PyInt nz, Some I4, []),
        (''er'', [n2, n1, n0], Array er', Some F8, []),
        (''ephi'', [n2, n1, n0], Array ephi', Some F8, []),
        (''ez'', [n2, n1, n0], Array ez', Some F8, [])] g = (None, ?g)"
    using fresh(2) ints er'(2) ephi'(2) ez'(2)
    by (simp add: create_dataset_array create_dataset_float create_dataset_int asize_def keep)
  have w: "E_3DS_write_hdf5 np add_group fs fn rmin rmax nr zmin zmax nz phimin phimax nphi
               er ephi ez desc = (Inr (''E_3DS_'' @ qid), ?fs)"
    using shp er'(1) ephi'(1) ez'(1) opn grp fresh(1) name cd
    unfolding E_3DS_write_hdf5_def n0 n1 n2
    by (simp del: split_on.simps)
  have "\<exists>out0. read_all ?g = Inr out0
          \<and> out0 ''er'' = Some (astype np F8 er')
          \<and> out0 ''ephi'' = Some (astype np F8 ephi')
          \<and> out0 ''ez'' = Some (astype np F8 ez')"
    using er'(2) ephi'(2) ez'(2) by (simp add: read_all_def read_dataset_def)
  then obtain out0 where ra: "read_all ?g = Inr out0"
      "out0 ''er'' = Some (astype np F8 er')" "out0 ''ephi'' = Some (astype np F8 ephi')"
      "out0 ''ez'' = Some (astype np F8 ez')"
    by blast
  have r: "\<exists>out. E_3DS_read_hdf5 ?fs fn qid = Inr out
         \<and> out ''er'' = Some (astype np F8 er)
         \<and> out ''ephi'' = Some (astype np F8 ephi)
         \<and> out ''ez'' = Some (astype np F8 ez)"
    using ra t
    by (simp add: E_3DS_read_hdf5_def h5_open_r_def h5_group_def transpose_entry_def getitem_def)
  then obtain out where out: "E_3DS_read_hdf5 ?fs fn qid = Inr out"
      "out ''er'' = Some (astype np F8 er)" "out ''ephi'' = Some (astype np F8 ephi)"
      "out ''ez'' = Some (astype np F8 ez)"
    by blast
  show ?thesis
    using w out by (auto simp: astype_same)
qed


text \<open>The round trip run on a 2 x 1 x 3 grid of float64 values, in a file that did not exist.\<close>

theorem E_3DS_roundtrip_witness:
  "\<exists>fs' out.
     E_3DS_write_hdf5 np_int (add_group_qid ''_'' ''0123456789'' ''2020-01-01'') Map.empty ''in.h5''
        0 1 2 0 1 3 0 360 1
        \<lparr>dtype = F8, shape = [2, 1, 3], data = [1, 2, 3, 4, 5, 6]\<rparr>
        \<lparr>dtype = F8, shape = [2, 1, 3], data = [7, 8, 9, 10, 11, 12]\<rparr>
        \<lparr>dtype = F8, shape = [2, 1, 3], data = [13, 14, 15, 16, 17, 18]\<rparr> None
       = (Inr ''E_3DS_0123456789'', fs')
   \<and> E_3DS_read_hdf5 fs' ''in.h5'' ''0123456789'' = Inr out
   \<and> out ''er'' = Some \<lparr>dtype = F8, shape = [2, 1, 3], data = [1, 2, 3, 4, 5, 6]\<rparr>
   \<and> out ''ephi'' = Some \<lparr>dtype = F8, shape = [2, 1, 3], data = [7, 8, 9, 10, 11, 12]\<rparr>
   \<and> out ''ez'' = Some \<lparr>dtype = F8, shape = [2, 1, 3], data = [13, 14, 15, 16, 17, 18]\<rparr>"
proof -
  let ?er = "\<lparr>dtype = F8, shape = [2, 1, 3], data = [1, 2, 3, 4, 5, 6::int]\<rparr>"
  let ?ephi = "\<lparr>dtype = F8, shape = [2, 1, 3], data = [7, 8, 9, 10, 11, 12::int]\<rparr>"
  let ?ez = "\<lparr>dtype = F8, shape = [2, 1, 3], data = [13, 14, 15, 16, 17, 18::int]\<rparr>"
  let ?g = "\<lparr>gattrs = [(''description'', ''No description.''), (''date'', ''2020-01-01'')],
             members = []\<rparr> :: int group"
  let ?f1 = "[''/efield/E_3DS_0123456789'' \<mapsto> ?g]"
  have wf: "wf_ndarray ?er" "wf_ndarray ?ephi" "wf_ndarray ?ez"
    by (simp_all add: wf_ndarray_def)
  have shp: "map int (shape ?er) = [2, 1, 3]" "map int (shape ?ephi) = [2, 1, 3]"
      "map int (shape ?ez) = [2, 1, 3]"
    by simp_all
  have opn: "h5_open_a (Map.empty :: int filesystem) ''in.h5'' = Inr Map.empty"
    by (simp add: h5_open_a_def)
  have grp: "add_group_qid ''_'' ''0123456789'' ''2020-01-01'' (Map.empty :: int h5file)
               ''efield'' ''E_3DS'' None = (Inr (''/efield/E_3DS_'' @ ''0123456789''), ?f1)"
    by (simp add: add_group_qid_def Let_def)
  have fresh: "?f1 (''/efield/E_3DS_'' @ ''0123456789'') = Some ?g" "members ?g = []"
    by simp_all
  have ints: "from_int np_int I4 2 = Inr 2" "from_int np_int I4 1 = Inr 1"
      "from_int np_int I4 3 = Inr 3"
    by (simp_all add: np_int_def)
  have qid: "CHR ''/'' \<notin> set ''0123456789''"
    by simp
  from E_3DS_roundtrip [where np = np_int
      and add_group = "add_group_qid ''_'' ''0123456789'' ''2020-01-01''"
      and fs = Map.empty and fn = "''in.h5''" and f = Map.empty and ?f1.0 = ?f1 and g = ?g
      and qid = "''0123456789''" and desc = None and rmin = 0 and rmax = 1 and zmin = 0
      and zmax = 1 and phimin = 0 and phimax = 360, OF wf shp opn grp fresh ints qid]
  show ?thesis by (auto simp: astype_same)
qed

text \<open>
  Claim C1 as it is stated (every input of the right shape comes back bit for bit) fails
  for an input that is not float64: the datasets are created with \<^verbatim>\<open>dtype="f8"\<close>, so a
  one-element int64 array holding 1 comes back as a float64 array.
\<close>

theorem E_3DS_roundtrip_counterexample:
  "fst (E_3DS_write_hdf5 np_int (add_group_qid ''_'' ''0123456789'' ''2020-01-01'') Map.empty
          ''in.h5'' 0 1 1 0 1 1 0 360 1
          \<lparr>dtype = I8, shape = [1, 1, 1], data = [1]\<rparr>
          \<lparr>dtype = F8, shape = [1, 1, 1], data = [0]\<rparr>
          \<lparr>dtype = F8, shape = [1, 1, 1], data = [0]\<rparr> None) = Inr ''E_3DS_0123456789''
   \<and> entry (E_3DS_read_hdf5
        (snd (E_3DS_write_hdf5 np_int (add_group_qid ''_'' ''0123456789'' ''2020-01-01'') Map.empty
          ''in.h5'' 0 1 1 0 1 1 0 360 1
          \<lparr>dtype = I8, shape = [1, 1, 1], data = [1]\<rparr>
          \<lparr>dtype = F8, shape = [1, 1, 1], data = [0]\<rparr>
          \<lparr>dtype = F8, shape = [1, 1, 1], data = [0]\<rparr> None))
        ''in.h5'' ''0123456789'') ''er''
      = Some \<lparr>dtype = F8, shape = [1, 1, 1], data = [1]\<rparr>
   \<and> Some \<lparr>dtype = F8, shape = [1, 1, 1], data = [1::int]\<rparr>
      \<noteq> Some \<lparr>dtype = I8, shape = [1, 1, 1], data = [1]\<rparr>"
  by (simp add: E_3DS_write_hdf5_def E_3DS_read_hdf5_def entry_def transpose_210_def c_order3_def
      h5_open_a_def h5_open_r_def h5_group_def add_group_qid_def np_int_def create_dataset_def
      array_for_new_object_def astype_def asize_def read_all_def read_dataset_def transpose_entry_def
      getitem_def
      Let_def)


text \<open>
  Claim C2. When \<open>er\<close>, \<open>ephi\<close> or \<open>ez\<close> does not have the shape \<open>(nr, nphi, nz)\<close>,
  \<^verbatim>\<open>E_3DS.write_hdf5\<close> raises ValueError and the file system is the one it was called
  with: the file is neither opened nor created.
\<close>

theorem E_3DS_write_shape_error:
  assumes "map int (shape er) \<noteq> [nr, nphi, nz] \<or> map int (shape ephi) \<noteq> [nr, nphi, nz]
           \<or> map int (shape ez) \<noteq> [nr, nphi, nz]"
  shows "\<exists>msg. E_3DS_write_hdf5 np add_group fs fn rmin rmax nr zmin zmax nz phimin phimax nphi
                  er ephi ez desc = (Inl (ValueError msg), fs)"
  using assms by (auto simp: E_3DS_write_hdf5_def)

theorem E_3DS_write_shape_error_witness:
  "E_3DS_write_hdf5 np_int (add_group_qid ''_'' ''0123456789'' ''2020-01-01'')
      [''in.h5'' \<mapsto> Hdf5 Map.empty] ''in.h5'' 0 1 2 0 1 1 0 360 1
      \<lparr>dtype = F8, shape = [2, 1, 1], data = [1, 2]\<rparr>
      \<lparr>dtype = F8, shape = [1, 2], data = [3, 4]\<rparr>
      \<lparr>dtype = F8, shape = [2, 1, 1], data = [5, 6]\<rparr> None
    = (Inl (ValueError ''Ephi has an inconsinstent shape.''), [''in.h5'' \<mapsto> Hdf5 Map.empty])"
proof -
  have "map int (shape \<lparr>dtype = F8, shape = [2, 1, 1], data = [1, 2::int]\<rparr>) \<noteq> [2, 1, 1]
        \<or> map int (shape \<lparr>dtype = F8, shape = [1, 2], data = [3, 4::int]\<rparr>) \<noteq> [2, 1, 1]
        \<or> map int (shape \<lparr>dtype = F8, shape = [2, 1, 1], data = [5, 6::int]\<rparr>) \<noteq> [2, 1, 1]"
    by simp
  from E_3DS_write_shape_error [OF this, of np_int
      "add_group_qid ''_'' ''0123456789'' ''2020-01-01''" "[''in.h5'' \<mapsto> Hdf5 Map.empty]"
      "''in.h5''" 0 1 0 1 0 360 None]
  show ?thesis by (simp add: E_3DS_write_hdf5_def)
qed

subsection \<open>mrk_prt: size checks and stored types\<close>

lemma mrk_prt_check_None:
  "(mrk_prt_check n ids mass charge r phi z vr vphi vz anum znum weight time = None)
   = (int (asize ids) = n \<and> int (asize mass) = n \<and> int (asize charge) = n
      \<and> int (asize r) = n \<and> int (asize phi) = n \<and> int (asize z) = n
      \<and> int (asize vr) = n \<and> int (asize vphi) = n \<and> int (asize vz) = n
      \<and> int (asize anum) = n \<and> int (asize znum) = n \<and> int (asize weight) = n
      \<and> int (asize time) = n)"
  by (simp add: mrk_prt_check_def)

lemma mrk_prt_check_Some:
  "mrk_prt_check n ids mass charge r phi z vr vphi vz anum znum weight time = Some e
   \<Longrightarrow> \<exists>msg. e = ValueError msg"
  by (auto simp: mrk_prt_check_def split: if_splits)

text \<open>
  Claim C3. If one of the thirteen per-marker arrays has a size different from \<open>n\<close>, the
  size checks of \<^verbatim>\<open>mrk_prt.write_hdf5\<close> raise ValueError and the function returns it with
  the file system unchanged; if all thirteen sizes equal \<open>n\<close>, the checks raise nothing.
\<close>

theorem mrk_prt_write_size_check:
  "((\<exists>a \<in> set [ids, mass, charge, r, phi, z, vr, vphi, vz, anum, znum, weight, time].
        int (asize a) \<noteq> n)
     \<longrightarrow> (\<exists>msg. mrk_prt_check n ids mass charge r phi z vr vphi vz anum znum weight time
                   = Some (ValueError msg)
              \<and> mrk_prt_write_hdf5 np add_group fs fn n ids mass charge r phi z vr vphi vz
                   anum znum weight time desc = (Inl (ValueError msg), fs)))
   \<and> ((\<forall>a \<in> set [ids, mass, charge, r, phi, z, vr, vphi, vz, anum, znum, weight, time].
          int (asize a) = n)
     \<longrightarrow> mrk_prt_check n ids mass charge r phi z vr vphi vz anum znum weight time = None)"
proof (intro conjI impI)
  assume "\<exists>a \<in> set [ids, mass, charge, r, phi, z, vr, vphi, vz, anum, znum, weight, time].
            int (asize a) \<noteq> n"
  then have "mrk_prt_check n ids mass charge r phi z vr vphi vz anum znum weight time \<noteq> None"
    unfolding mrk_prt_check_None by auto
  then obtain e where e: "mrk_prt_check n ids mass charge r phi z vr vphi vz anum znum weight time
      = Some e"
    by auto
  then obtain msg where "e = ValueError msg"
    using mrk_prt_check_Some by blast
  with e show "\<exists>msg. mrk_prt_check n ids mass charge r phi z vr vphi vz anum znum weight time
                   = Some (ValueError msg)
              \<and> mrk_prt_write_hdf5 np add_group fs fn n ids mass charge r phi z vr vphi vz
                   anum znum weight time desc = (Inl (ValueError msg), fs)"
    by (simp add: mrk_prt_write_hdf5_def)
next
  assume "\<forall>a \<in> set [ids, mass, charge, r, phi, z, vr, vphi, vz, anum, znum, weight, time].
            int (asize a) = n"
  then show "mrk_prt_check n ids mass charge r phi z vr vphi vz anum znum weight time = None"
    unfolding mrk_prt_check_None by simp
qed

text \<open>
  Two markers: with a \<^verbatim>\<open>vz\<close> of three elements the call raises and leaves the file
  system as it was; with thirteen arrays of two elements the checks pass.
\<close>

theorem mrk_prt_write_size_check_witness:
  "mrk_prt_write_hdf5 np_int (add_group_qid ''_'' ''0123456789'' ''2020-01-01'') Map.empty
      ''in.h5'' 2
      \<lparr>dtype = I8, shape = [2], data = [1, 2]\<rparr> \<lparr>dtype = F8, shape = [2], data = [4, 4]\<rparr>
      \<lparr>dtype = I4, shape = [2], data = [2, 2]\<rparr> \<lparr>dtype = F8, shape = [2], data = [6, 7]\<rparr>
      \<lparr>dtype = F8, shape = [2], data = [0, 90]\<rparr> \<lparr>dtype = F8, shape = [2], data = [0, 1]\<rparr>
      \<lparr>dtype = F8, shape = [2], data = [1, 1]\<rparr> \<lparr>dtype = F8, shape = [2], data = [2, 2]\<rparr>
      \<lparr>dtype = F8, shape = [3], data = [3, 3, 3]\<rparr> \<lparr>dtype = I4, shape = [2], data = [4, 4]\<rparr>
      \<lparr>dtype = I4, shape = [2], data = [2, 2]\<rparr> \<lparr>dtype = F8, shape = [2], data = [1, 1]\<rparr>
      \<lparr>dtype = F8, shape = [2], data = [0, 0]\<rparr> None
     = (Inl (ValueError ''Inconsistent size for vz.''), Map.empty)
   \<and> mrk_prt_check 2
      \<lparr>dtype = I8, shape = [2], data = [1, 2]\<rparr> \<lparr>dtype = F8, shape = [2], data = [4, 4]\<rparr>
      \<lparr>dtype = I4, shape = [2], data = [2, 2]\<rparr> \<lparr>dtype = F8, shape = [2], data = [6, 7]\<rparr>
      \<lparr>dtype = F8, shape = [2], data = [0, 90]\<rparr> \<lparr>dtype = F8, shape = [2], data = [0, 1]\<rparr>
      \<lparr>dtype = F8, shape = [2], data = [1, 1]\<rparr> \<lparr>dtype = F8, shape = [2], data = [2, 2]\<rparr>
      \<lparr>dtype = F8, shape = [2, 1], data = [3, 3]\<rparr> \<lparr>dtype = I4, shape = [2], data = [4, 4]\<rparr>
      \<lparr>dtype = I4, shape = [2], data = [2, 2]\<rparr> \<lparr>dtype = F8, shape = [2], data = [1, 1]\<rparr>
      \<lparr>dtype = F8, shape = [2], data = [0, 0::int]\<rparr> = None"
proof -
  let ?ids = "\<lparr>dtype = I8, shape = [2], data = [1, 2::int]\<rparr>"
  let ?mass = "\<lparr>dtype = F8, shape = [2], data = [4, 4::int]\<rparr>"
  let ?charge = "\<lparr>dtype = I4, shape = [2], data = [2, 2::int]\<rparr>"
  let ?r = "\<lparr>dtype = F8, shape = [2], data = [6, 7::int]\<rparr>"
  let ?phi = "\<lparr>dtype = F8, shape = [2], data = [0, 90::int]\<rparr>"
  let ?z = "\<lparr>dtype = F8, shape = [2], data = [0, 1::int]\<rparr>"
  let ?vr = "\<lparr>dtype = F8, shape = [2], data = [1, 1::int]\<rparr>"
  let ?vphi = "\<lparr>dtype = F8, shape = [2], data = [2, 2::int]\<rparr>"
  let ?bad = "\<lparr>dtype = F8, shape = [3], data = [3, 3, 3::int]\<rparr>"
  let ?vz = "\<lparr>dtype = F8, shape = [2, 1], data = [3, 3::int]\<rparr>"
  let ?anum = "\<lparr>dtype = I4, shape = [2], data = [4, 4::int]\<rparr>"
  let ?znum = "\<lparr>dtype = I4, shape = [2], data = [2, 2::int]\<rparr>"
  let ?weight = "\<lparr>dtype = F8, shape = [2], data = [1, 1::int]\<rparr>"
  let ?time = "\<lparr>dtype = F8, shape = [2], data = [0, 0::int]\<rparr>"
  have bad: "\<exists>a \<in> set [?ids, ?mass, ?charge, ?r, ?phi, ?z, ?vr, ?vphi, ?bad, ?anum, ?znum,
                         ?weight, ?time]. int (asize a) \<noteq> 2"
    by (simp add: asize_def)
  have good: "\<forall>a \<in> set [?ids, ?mass, ?charge, ?r, ?phi, ?z, ?vr, ?vphi, ?vz, ?anum, ?znum,
                          ?weight, ?time]. int (asize a) = 2"
    by (simp add: asize_def)
  from mrk_prt_write_size_check [of ?ids ?mass ?charge ?r ?phi ?z ?vr ?vphi ?bad ?anum ?znum
      ?weight ?time 2 np_int "add_group_qid ''_'' ''0123456789'' ''2020-01-01''" Map.empty
      "''in.h5''" None] bad
  have "\<exists>msg. mrk_prt_check 2 ?ids ?mass ?charge ?r ?phi ?z ?vr ?vphi ?bad ?anum ?znum ?weight
                 ?time = Some (ValueError msg)
            \<and> mrk_prt_write_hdf5 np_int (add_group_qid ''_'' ''0123456789'' ''2020-01-01'')
                 Map.empty ''in.h5'' 2 ?ids ?mass ?charge ?r ?phi ?z ?vr ?vphi ?bad ?anum
                 ?znum ?weight ?time None = (Inl (ValueError msg), Map.empty)"
    by blast
  moreover have "mrk_prt_check 2 ?ids ?mass ?charge ?r ?phi ?z ?vr ?vphi ?bad ?anum ?znum ?weight
                 ?time = Some (ValueError ''Inconsistent size for vz.'')"
    by (simp add: mrk_prt_check_def asize_def)
  ultimately have first: "mrk_prt_write_hdf5 np_int
      (add_group_qid ''_'' ''0123456789'' ''2020-01-01'') Map.empty ''in.h5'' 2 ?ids ?mass
      ?charge ?r ?phi ?z ?vr ?vphi ?bad ?anum ?znum ?weight ?time None
      = (Inl (ValueError ''Inconsistent size for vz.''), Map.empty)"
    by auto
  from mrk_prt_write_size_check [of ?ids ?mass ?charge ?r ?phi ?z ?vr ?vphi ?vz ?anum ?znum
      ?weight ?time 2 np_int "add_group_qid ''_'' ''0123456789'' ''2020-01-01''" Map.empty
      "''in.h5''" None] good
  have "mrk_prt_check 2 ?ids ?mass ?charge ?r ?phi ?z ?vr ?vphi ?vz ?anum ?znum ?weight ?time
        = None"
    by blast
  with first show ?thesis by simp
qed

lemma astype_reshape:
  "(astype np t a)\<lparr>shape := s\<rparr>
   = \<lparr>dtype = t, shape = s,
      data = (if dtype a = t then data a else map (convert np (dtype a) t) (data a))\<rparr>"
  by (cases a) (simp add: astype_def)

lemma mrk_prt_written:
  fixes np :: "'v numpy" and add_group :: "'v add_group"
  assumes opn: "h5_open_a fs fn = Inr f"
    and grp: "add_group f ''marker'' ''prt'' desc = (Inr name, f1)"
    and fresh: "f1 name = Some g" "members g = []"
    and ok: "mrk_prt_write_hdf5 np add_group fs fn n ids mass charge r phi z vr vphi vz
               anum znum weight time desc = (Inr gname, fs')"
  shows "\<exists>vn. fs' = fs(fn \<mapsto> Hdf5 (f1(name \<mapsto> g\<lparr>members :=
     [(''n'', \<lparr>ds = \<lparr>dtype = I8, shape = [1, 1], data = [vn]\<rparr>, attrs = [(''unit'', ''1'')]\<rparr>),
      (''r'', \<lparr>ds = (astype np F8 r)\<lparr>shape := [nat n, 1]\<rparr>, attrs = [(''unit'', ''m'')]\<rparr>),
      (''phi'', \<lparr>ds = (astype np F8 phi)\<lparr>shape := [nat n, 1]\<rparr>, attrs = [(''unit'', ''deg'')]\<rparr>),
      (''z'', \<lparr>ds = (astype np F8 z)\<lparr>shape := [nat n, 1]\<rparr>, attrs = [(''unit'', ''m'')]\<rparr>),
      (''vr'', \<lparr>ds = (astype np F8 vr)\<lparr>shape := [nat n, 1]\<rparr>, attrs = [(''unit'', ''m/s'')]\<rparr>),
      (''vphi'', \<lparr>ds = (astype np F8 vphi)\<lparr>shape := [nat n, 1]\<rparr>, attrs = [(''unit'', ''m/s'')]\<rparr>),
      (''vz'', \<lparr>ds = (astype np F8 vz)\<lparr>shape := [nat n, 1]\<rparr>, attrs = [(''unit'', ''m/s'')]\<rparr>),
      (''mass'', \<lparr>ds = (astype np F8 mass)\<lparr>shape := [nat n, 1]\<rparr>, attrs = [(''unit'', ''amu'')]\<rparr>),
      (''charge'', \<lparr>ds = (astype np I4 charge)\<lparr>shape := [nat n, 1]\<rparr>, attrs = [(''unit'', ''e'')]\<rparr>),
      (''anum'', \<lparr>ds = (astype np I4 anum)\<lparr>shape := [nat n, 1]\<rparr>, attrs = [(''unit'', ''1'')]\<rparr>),
      (''znum'', \<lparr>ds = (astype np I4 znum)\<lparr>shape := [nat n, 1]\<rparr>, attrs = [(''unit'', ''1'')]\<rparr>),
      (''weight'', \<lparr>ds = (astype np F8 weight)\<lparr>shape := [nat n, 1]\<rparr>,
         attrs = [(''unit'', ''markers/s'')]\<rparr>),
      (''time'', \<lparr>ds = (astype np F8 time)\<lparr>shape := [nat n, 1]\<rparr>, attrs = [(''unit'', ''s'')]\<rparr>),
      (''id'', \<lparr>ds = (astype np I8 ids)\<lparr>shape := [nat n, 1]\<rparr>, attrs = [(''unit'', ''1'')]\<rparr>)]\<rparr>)))"
proof -
  have chk: "mrk_prt_check n ids mass charge r phi z vr vphi vz anum znum weight time = None"
  proof (cases "mrk_prt_check n ids mass charge r phi z vr vphi vz anum znum weight time")
    case None
    then show ?thesis .
  next
    case (Some e)
    with ok show ?thesis by (simp add: mrk_prt_write_hdf5_def)
  qed
  then have sz: "asize ids = nat n" "asize mass = nat n" "asize charge = nat n"
      "asize r = nat n" "asize phi = nat n" "asize z = nat n" "asize vr = nat n"
      "asize vphi = nat n" "asize vz = nat n" "asize anum = nat n" "asize znum = nat n"
      "asize weight = nat n" "asize time = nat n"
    unfolding mrk_prt_check_None by auto
  let ?specs = "[(''n'', [1, 1], PyInt n, Some I8, [(''unit'', ''1'')]),
      (''r'', [nat n, 1], Array r, Some F8, [(''unit'', ''m'')]),
      (''phi'', [nat n, 1], Array phi, Some F8, [(''unit'', ''deg'')]),
      (''z'', [nat n, 1], Array z, Some F8, [(''unit'', ''m'')]),
      (''vr'', [nat n, 1], Array vr, Some F8, [(''unit'', ''m/s'')]),
      (''vphi'', [nat n, 1], Array vphi, Some F8, [(''unit'', ''m/s'')]),
      (''vz'', [nat n, 1], Array vz, Some F8, [(''unit'', ''m/s'')]),
      (''mass'', [nat n, 1], Array mass, Some F8, [(''unit'', ''amu'')]),
      (''charge'', [nat n, 1], Array charge, Some I4, [(''unit'', ''e'')]),
      (''anum'', [nat n, 1], Array anum, Some I4, [(''unit'', ''1'')]),
      (''znum'', [nat n, 1], Array znum, Some I4, [(''unit'', ''1'')]),
      (''weight'', [nat n, 1], Array weight, Some F8, [(''unit'', ''markers/s'')]),
      (''time'', [nat n, 1], Array time, Some F8, [(''unit'', ''s'')]),
      (''id'', [nat n, 1], Array ids, Some I8, [(''unit'', ''1'')])]"
  have w: "mrk_prt_write_hdf5 np add_group fs fn n ids mass charge r phi z vr vphi vz
               anum znum weight time desc
           = (case create_datasets np ?specs g of
                (err, g') \<Rightarrow>
                  (case err of
                     Some e \<Rightarrow> (Inl e, fs(fn \<mapsto> Hdf5 (f1(name \<mapsto> g'))))
                   | None \<Rightarrow> (Inr (last (split_on CHR ''/'' name)),
                              fs(fn \<mapsto> Hdf5 (f1(name \<mapsto> g'))))))"
    using chk opn grp fresh(1)
    by (simp add: mrk_prt_write_hdf5_def Let_def del: create_datasets.simps split_on.simps)
  obtain vn where vn: "from_int np I8 n = Inr vn"
  proof (cases "from_int np I8 n")
    case (Inl e)
    then have "create_datasets np ?specs g = (Some e, g)"
      by (simp add: create_dataset_int_fail)
    with w ok show ?thesis by simp
  next
    case (Inr v)
    then show ?thesis using that by simp
  qed
  let ?ms = "[(''n'', \<lparr>ds = \<lparr>dtype = I8, shape = [1, 1], data = [vn]\<rparr>, attrs = [(''unit'', ''1'')]\<rparr>),
      (''r'', \<lparr>ds = (astype np F8 r)\<lparr>shape := [nat n, 1]\<rparr>, attrs = [(''unit'', ''m'')]\<rparr>),
      (''phi'', \<lparr>ds = (astype np F8 phi)\<lparr>shape := [nat n, 1]\<rparr>, attrs = [(''unit'', ''deg'')]\<rparr>),
      (''z'', \<lparr>ds = (astype np F8 z)\<lparr>shape := [nat n, 1]\<rparr>, attrs = [(''unit'', ''m'')]\<rparr>),
      (''vr'', \<lparr>ds = (astype np F8 vr)\<lparr>shape := [nat n, 1]\<rparr>, attrs = [(''unit'', ''m/s'')]\<rparr>),
      (''vphi'', \<lparr>ds = (astype np F8 vphi)\<lparr>shape := [nat n, 1]\<rparr>, attrs = [(''unit'', ''m/s'')]\<rparr>),
      (''vz'', \<lparr>ds = (astype np F8 vz)\<lparr>shape := [nat n, 1]\<rparr>, attrs = [(''unit'', ''m/s'')]\<rparr>),
      (''mass'', \<lparr>ds = (astype np F8 mass)\<lparr>shape := [nat n, 1]\<rparr>, attrs = [(''unit'', ''amu'')]\<rparr>),
      (''charge'', \<lparr>ds = (astype np I4 charge)\<lparr>shape := [nat n, 1]\<rparr>, attrs = [(''unit'', ''e'')]\<rparr>),
      (''anum'', \<lparr>ds = (astype np I4 anum)\<lparr>shape := [nat n, 1]\<rparr>, attrs = [(''unit'', ''1'')]\<rparr>),
      (''znum'', \<lparr>ds = (astype np I4 znum)\<lparr>shape := [nat n, 1]\<rparr>, attrs = [(''unit'', ''1'')]\<rparr>),
      (''weight'', \<lparr>ds = (astype np F8 weight)\<lparr>shape := [nat n, 1]\<rparr>,
         attrs = [(''unit'', ''markers/s'')]\<rparr>),
      (''time'', \<lparr>ds = (astype np F8 time)\<lparr>shape := [nat n, 1]\<rparr>, attrs = [(''unit'', ''s'')]\<rparr>),
      (''id'', \<lparr>ds = (astype np I8 ids)\<lparr>shape := [nat n, 1]\<rparr>, attrs = [(''unit'', ''1'')]\<rparr>)]"
  have cd: "create_datasets np ?specs g = (None, g\<lparr>members := ?ms\<rparr>)"
    using fresh(2) vn sz
    by (simp add: create_dataset_array create_dataset_int)
  with w ok have fs': "fs' = fs(fn \<mapsto> Hdf5 (f1(name \<mapsto> g\<lparr>members := ?ms\<rparr>)))"
    by simp
  then show ?thesis by blast
qed

text \<open>
  Claim C8. When \<^verbatim>\<open>mrk_prt.write_hdf5\<close> returns, having been given a fresh group by
  add_group, the group holds \<^verbatim>\<open>charge\<close>, \<^verbatim>\<open>anum\<close> and \<^verbatim>\<open>znum\<close> as 32-bit integers and
  \<^verbatim>\<open>id\<close> as 64-bit integers, whatever the dtype of the inputs, and every other
  per-marker quantity as 64-bit floats; each of these datasets has shape \<open>(n, 1)\<close> and
  holds the elements of its input in order, converted where the dtype differs. Where one
  of the four integer datasets is given as a float64 array, every value is stored
  without its fractional part (rounded toward zero) whenever that integer fits the
  dataset's type.
\<close>

theorem mrk_prt_stored_dtypes:
  fixes add_group :: "npval add_group"
  assumes opn: "h5_open_a fs fn = Inr f"
    and grp: "add_group f ''marker'' ''prt'' desc = (Inr name, f1)"
    and fresh: "f1 name = Some g" "members g = []"
    and ok: "mrk_prt_write_hdf5 (np_lib other fi) add_group fs fn n ids mass charge r phi z
               vr vphi vz anum znum weight time desc = (Inr gname, fs')"
  shows "\<exists>g'. fs' fn = Some (Hdf5 (f1(name \<mapsto> g')))
     \<and> holds_as (np_lib other fi) g' ''charge'' I4 [nat n, 1] charge
     \<and> holds_as (np_lib other fi) g' ''anum'' I4 [nat n, 1] anum
     \<and> holds_as (np_lib other fi) g' ''znum'' I4 [nat n, 1] znum
     \<and> holds_as (np_lib other fi) g' ''id'' I8 [nat n, 1] ids
     \<and> holds_as (np_lib other fi) g' ''r'' F8 [nat n, 1] r
     \<and> holds_as (np_lib other fi) g' ''phi'' F8 [nat n, 1] phi
     \<and> holds_as (np_lib other fi) g' ''z'' F8 [nat n, 1] z
     \<and> holds_as (np_lib other fi) g' ''vr'' F8 [nat n, 1] vr
     \<and> holds_as (np_lib other fi) g' ''vphi'' F8 [nat n, 1] vphi
     \<and> holds_as (np_lib other fi) g' ''vz'' F8 [nat n, 1] vz
     \<and> holds_as (np_lib other fi) g' ''mass'' F8 [nat n, 1] mass
     \<and> holds_as (np_lib other fi) g' ''weight'' F8 [nat n, 1] weight
     \<and> holds_as (np_lib other fi) g' ''time'' F8 [nat n, 1] time
     \<and> (dtype charge = F8 \<longrightarrow> holds_truncated g' ''charge'' I4 charge)
     \<and> (dtype anum = F8 \<longrightarrow> holds_truncated g' ''anum'' I4 anum)
     \<and> (dtype znum = F8 \<longrightarrow> holds_truncated g' ''znum'' I4 znum)
     \<and> (dtype ids = F8 \<longrightarrow> holds_truncated g' ''id'' I8 ids)"
proof -
  let ?np = "np_lib other fi"
  obtain vn where fs': "fs' = fs(fn \<mapsto> Hdf5 (f1(name \<mapsto> g\<lparr>members :=
     [(''n'', \<lparr>ds = \<lparr>dtype = I8, shape = [1, 1], data = [vn]\<rparr>, attrs = [(''unit'', ''1'')]\<rparr>),
      (''r'', \<lparr>ds = (astype ?np F8 r)\<lparr>shape := [nat n, 1]\<rparr>, attrs = [(''unit'', ''m'')]\<rparr>),
      (''phi'', \<lparr>ds = (astype ?np F8 phi)\<lparr>shape := [nat n, 1]\<rparr>, attrs = [(''unit'', ''deg'')]\<rparr>),
      (''z'', \<lparr>ds = (astype ?np F8 z)\<lparr>shape := [nat n, 1]\<rparr>, attrs = [(''unit'', ''m'')]\<rparr>),
      (''vr'', \<lparr>ds = (astype ?np F8 vr)\<lparr>shape := [nat n, 1]\<rparr>, attrs = [(''unit'', ''m/s'')]\<rparr>),
      (''vphi'', \<lparr>ds = (astype ?np F8 vphi)\<lparr>shape := [nat n, 1]\<rparr>, attrs = [(''unit'', ''m/s'')]\<rparr>),
      (''vz'', \<lparr>ds = (astype ?np F8 vz)\<lparr>shape := [nat n, 1]\<rparr>, attrs = [(''unit'', ''m/s'')]\<rparr>),
      (''mass'', \<lparr>ds = (astype ?np F8 mass)\<lparr>shape := [nat n, 1]\<rparr>, attrs = [(''unit'', ''amu'')]\<rparr>),
      (''charge'', \<lparr>ds = (astype ?np I4 charge)\<lparr>shape := [nat n, 1]\<rparr>, attrs = [(''unit'', ''e'')]\<rparr>),
      (''anum'', \<lparr>ds = (astype ?np I4 anum)\<lparr>shape := [nat n, 1]\<rparr>, attrs = [(''unit'', ''1'')]\<rparr>),
      (''znum'', \<lparr>ds = (astype ?np I4 znum)\<lparr>shape := [nat n, 1]\<rparr>, attrs = [(''unit'', ''1'')]\<rparr>),
      (''weight'', \<lparr>ds = (astype ?np F8 weight)\<lparr>shape := [nat n, 1]\<rparr>,
         attrs = [(''unit'', ''markers/s'')]\<rparr>),
      (''time'', \<lparr>ds = (astype ?np F8 time)\<lparr>shape := [nat n, 1]\<rparr>, attrs = [(''unit'', ''s'')]\<rparr>),
      (''id'', \<lparr>ds = (astype ?np I8 ids)\<lparr>shape := [nat n, 1]\<rparr>, attrs = [(''unit'', ''1'')]\<rparr>)]\<rparr>)))"
      (is "fs' = fs(fn \<mapsto> Hdf5 (f1(name \<mapsto> ?g)))")
    using mrk_prt_written [where np = ?np and add_group = add_group and f = f and ?f1.0 = f1
        and g = g and name = name, OF opn grp fresh ok]
    by blast
  have h: "holds_as ?np ?g ''charge'' I4 [nat n, 1] charge"
    "holds_as ?np ?g ''anum'' I4 [nat n, 1] anum"
    "holds_as ?np ?g ''znum'' I4 [nat n, 1] znum"
    "holds_as ?np ?g ''id'' I8 [nat n, 1] ids"
    "holds_as ?np ?g ''r'' F8 [nat n, 1] r"
    "holds_as ?np ?g ''phi'' F8 [nat n, 1] phi"
    "holds_as ?np ?g ''z'' F8 [nat n, 1] z"
    "holds_as ?np ?g ''vr'' F8 [nat n, 1] vr"
    "holds_as ?np ?g ''vphi'' F8 [nat n, 1] vphi"
    "holds_as ?np ?g ''vz'' F8 [nat n, 1] vz"
    "holds_as ?np ?g ''mass'' F8 [nat n, 1] mass"
    "holds_as ?np ?g ''weight'' F8 [nat n, 1] weight"
    "holds_as ?np ?g ''time'' F8 [nat n, 1] time"
    by (simp_all add: holds_as_def stored_def astype_reshape)
  have t: "dtype charge = F8 \<longrightarrow> holds_truncated ?g ''charge'' I4 charge"
    "dtype anum = F8 \<longrightarrow> holds_truncated ?g ''anum'' I4 anum"
    "dtype znum = F8 \<longrightarrow> holds_truncated ?g ''znum'' I4 znum"
    "dtype ids = F8 \<longrightarrow> holds_truncated ?g ''id'' I8 ids"
    by (simp_all add: holds_truncated_def stored_def astype_def np_lib_def list_all2_truncated)
  from fs' h t show ?thesis
    by (intro exI [of _ ?g]) simp
qed

text \<open>
  Two markers written to a file that did not exist. The charges 2.7 and -1.5, given as
  float64, are held as the 32-bit integers 2 and -1; the identifiers 1.0 and 2.9 as the
  64-bit integers 1 and 2; the radii 6 and 7, given as integers, as float64.
\<close>

theorem mrk_prt_stored_dtypes_witness:
  "\<exists>g'. snd (mrk_prt_write_hdf5 (np_lib (\<lambda>s t v. v) (\<lambda>t i. Inr (IntV i)))
        (add_group_qid ''_'' ''0123456789'' ''2020-01-01'') Map.empty ''in.h5'' 2
        \<lparr>dtype = F8, shape = [2], data = [FltV 1, FltV (29 / 10)]\<rparr>
        \<lparr>dtype = F8, shape = [2], data = [FltV 4, FltV 4]\<rparr>
        \<lparr>dtype = F8, shape = [2], data = [FltV (27 / 10), FltV (- 3 / 2)]\<rparr>
        \<lparr>dtype = I8, shape = [2], data = [IntV 6, IntV 7]\<rparr>
        \<lparr>dtype = F8, shape = [2], data = [FltV 0, FltV 90]\<rparr>
        \<lparr>dtype = F8, shape = [2], data = [FltV 0, FltV 1]\<rparr>
        \<lparr>dtype = F8, shape = [2], data = [FltV 1, FltV 1]\<rparr>
        \<lparr>dtype = F8, shape = [2], data = [FltV 2, FltV 2]\<rparr>
        \<lparr>dtype = F8, shape = [2], data = [FltV 3, FltV 3]\<rparr>
        \<lparr>dtype = I4, shape = [2], data = [IntV 4, IntV 4]\<rparr>
        \<lparr>dtype = I4, shape = [2], data = [IntV 2, IntV 2]\<rparr>
        \<lparr>dtype = F8, shape = [2], data = [FltV 1, FltV 1]\<rparr>
        \<lparr>dtype = F8, shape = [2], data = [FltV 0, FltV 0]\<rparr> None) ''in.h5''
      = Some (Hdf5 [''/marker/prt_0123456789'' \<mapsto> g'])
    \<and> stored g' ''charge'' = Some \<lparr>dtype = I4, shape = [2, 1], data = [IntV 2, IntV (- 1)]\<rparr>
    \<and> stored g' ''id'' = Some \<lparr>dtype = I8, shape = [2, 1], data = [IntV 1, IntV 2]\<rparr>
    \<and> stored g' ''r'' = Some \<lparr>dtype = F8, shape = [2, 1], data = [FltV 6, FltV 7]\<rparr>
    \<and> holds_truncated g' ''charge'' I4
          \<lparr>dtype = F8, shape = [2], data = [FltV (27 / 10), FltV (- 3 / 2)]\<rparr>"
proof -
  let ?np = "np_lib (\<lambda>s t v. v) (\<lambda>t i. Inr (IntV i))"
  let ?ag = "add_group_qid ''_'' ''0123456789'' ''2020-01-01'' :: npval add_group"
  let ?g = "\<lparr>gattrs = [(''description'', ''No description.''), (''date'', ''2020-01-01'')],
             members = []\<rparr> :: npval group"
  let ?f1 = "[''/marker/prt_0123456789'' \<mapsto> ?g]"
  let ?ids = "\<lparr>dtype = F8, shape = [2], data = [FltV 1, FltV (29 / 10)]\<rparr>"
  let ?charge = "\<lparr>dtype = F8, shape = [2], data = [FltV (27 / 10), FltV (- 3 / 2)]\<rparr>"
  let ?r = "\<lparr>dtype = I8, shape = [2], data = [IntV 6, IntV 7]\<rparr>"
  let ?W = "mrk_prt_write_hdf5 ?np ?ag Map.empty ''in.h5'' 2 ?ids
        \<lparr>dtype = F8, shape = [2], data = [FltV 4, FltV 4]\<rparr> ?charge ?r
        \<lparr>dtype = F8, shape = [2], data = [FltV 0, FltV 90]\<rparr>
        \<lparr>dtype = F8, shape = [2], data = [FltV 0, FltV 1]\<rparr>
        \<lparr>dtype = F8, shape = [2], data = [FltV 1, FltV 1]\<rparr>
        \<lparr>dtype = F8, shape = [2], data = [FltV 2, FltV 2]\<rparr>
        \<lparr>dtype = F8, shape = [2], data = [FltV 3, FltV 3]\<rparr>
        \<lparr>dtype = I4, shape = [2], data = [IntV 4, IntV 4]\<rparr>
        \<lparr>dtype = I4, shape = [2], data = [IntV 2, IntV 2]\<rparr>
        \<lparr>dtype = F8, shape = [2], data = [FltV 1, FltV 1]\<rparr>
        \<lparr>dtype = F8, shape = [2], data = [FltV 0, FltV 0]\<rparr> None"
  have opn: "h5_open_a (Map.empty :: npval filesystem) ''in.h5'' = Inr Map.empty"
    by (simp add: h5_open_a_def)
  have grp: "?ag Map.empty ''marker'' ''prt'' None = (Inr ''/marker/prt_0123456789'', ?f1)"
    by (simp add: add_group_qid_def Let_def)
  have fresh: "?f1 ''/marker/prt_0123456789'' = Some ?g" "members ?g = []"
    by simp_all
  have "fst ?W = Inr ''prt_0123456789''"
    by (simp add: mrk_prt_write_hdf5_def mrk_prt_check_def asize_def h5_open_a_def
        add_group_qid_def Let_def create_dataset_def array_for_new_object_def np_lib_def
        astype_def)
  then have ok: "?W = (Inr ''prt_0123456789'', snd ?W)"
    by (simp add: prod_eq_iff)
  have c: "map (c_cast (\<lambda>s t v. v) F8 I4) [FltV (27 / 10), FltV (- 3 / 2)] = [IntV 2, IntV (- 1)]"
      "map (c_cast (\<lambda>s t v. v) F8 I8) [FltV 1, FltV (29 / 10)] = [IntV 1, IntV 2]"
      "map (c_cast (\<lambda>s t v. v) I8 F8) [IntV 6, IntV 7] = [FltV 6, FltV 7]"
    by (simp_all add: c_cast_def fits_def trunc_zero_def)
  from mrk_prt_stored_dtypes [where other = "\<lambda>s t v. v" and fi = "\<lambda>t i. Inr (IntV i)"
      and add_group = ?ag and fs = Map.empty
      and fn = "''in.h5''" and f = Map.empty and desc = None
      and name = "''/marker/prt_0123456789''" and ?f1.0 = ?f1 and g = ?g, OF opn grp fresh ok]
  obtain g' where g': "snd ?W ''in.h5'' = Some (Hdf5 [''/marker/prt_0123456789'' \<mapsto> g'])"
      "holds_as ?np g' ''charge'' I4 [nat 2, 1] ?charge"
      "holds_as ?np g' ''id'' I8 [nat 2, 1] ?ids"
      "holds_as ?np g' ''r'' F8 [nat 2, 1] ?r"
      "dtype ?charge = F8 \<longrightarrow> holds_truncated g' ''charge'' I4 ?charge"
    by auto
  from g'(2-5) c have "stored g' ''charge'' = Some \<lparr>dtype = I4, shape = [2, 1], data = [IntV 2, IntV (- 1)]\<rparr>"
      "stored g' ''id'' = Some \<lparr>dtype = I8, shape = [2, 1], data = [IntV 1, IntV 2]\<rparr>"
      "stored g' ''r'' = Some \<lparr>dtype = F8, shape = [2, 1], data = [FltV 6, FltV 7]\<rparr>"
      "holds_truncated g' ''charge'' I4 ?charge"
    by (simp_all add: holds_as_def np_lib_def)
  with g'(1) show ?thesis by blast
qed

subsection \<open>mrk_prt: the pitch\<close>

text \<open>
  Claim C7. When the seven datasets are read and the library evaluates the three field
  components at \<open>(r, phi, z)\<close> and time 0, \<^verbatim>\<open>mrk_prt.eval_pitch\<close> returns
  \<open>(vr*br + vz*bz + vphi*bphi) / (|B| * |v|)\<close> with \<open>|B| = sqrt(br^2 + bz^2 + bphi^2)\<close> and
  \<open>|v| = sqrt(vr^2 + vz^2 + vphi^2)\<close>, in numpy's arithmetic.
\<close>

theorem mrk_prt_eval_pitch_formula:
  assumes "enter = Inr h5"
    and "read_data h5 ''r'' = Inr r" and "read_data h5 ''z'' = Inr z"
    and "read_data h5 ''phi'' = Inr phi" and "read_data h5 ''vr'' = Inr vr"
    and "read_data h5 ''vz'' = Inr vz" and "read_data h5 ''vphi'' = Inr vphi"
    and "read_data h5 ''mass'' = Inr mass"
    and "evaluate r phi z 0 ''br'' = Inr br" and "evaluate r phi z 0 ''bz'' = Inr bz"
    and "evaluate r phi z 0 ''bphi'' = Inr bphi"
    and "normB = np_sqrt ar (np_add ar (np_add ar (np_square ar br) (np_square ar bz))
                                       (np_square ar bphi))"
    and "normv = np_sqrt ar (np_add ar (np_add ar (np_square ar vr) (np_square ar vz))
                                       (np_square ar vphi))"
  shows "mrk_prt_eval_pitch ar enter read_data evaluate
         = Inr (np_div ar
                  (np_add ar (np_add ar (np_mul ar vr br) (np_mul ar vz bz)) (np_mul ar vphi bphi))
                  (np_mul ar normB normv))"
  using assms by (simp add: mrk_prt_eval_pitch_def)

text \<open>
  One marker at \<open>(6, 0, 1)\<close> with velocity \<open>(3, 0, 4)\<close> in a field \<open>(0, 0, 2)\<close>, asked for at
  time 0 only: the pitch is \<open>8 / (2 * 5)\<close>.
\<close>

theorem mrk_prt_eval_pitch_formula_witness:
  "mrk_prt_eval_pitch ar_real (Inr ())
     (\<lambda>h5 k. if k = ''r'' then Inr 6 else if k = ''z'' then Inr 1 else if k = ''phi'' then Inr 0
              else if k = ''vr'' then Inr 3 else if k = ''vz'' then Inr 4
              else if k = ''vphi'' then Inr 0 else if k = ''mass'' then Inr 4
              else Inl (KeyError k))
     (\<lambda>r phi z t q. if (r, phi, z, t) \<noteq> (6, 0, 1, 0) then Inl (ValueError ''not evaluated'')
                     else if q = ''bz'' then Inr 2 else Inr 0)
   = Inr (4 / 5)"
proof -
  let ?rd = "\<lambda>(h5::unit) k. if k = ''r'' then Inr 6 else if k = ''z'' then Inr 1
              else if k = ''phi'' then Inr 0
              else if k = ''vr'' then Inr 3 else if k = ''vz'' then Inr 4
              else if k = ''vphi'' then Inr 0 else if k = ''mass'' then Inr 4
              else Inl (KeyError k) :: error + real"
  let ?ev = "\<lambda>(r::real) (phi::real) (z::real) (t::int) q.
               if (r, phi, z, t) \<noteq> (6, 0, 1, 0) then Inl (ValueError ''not evaluated'')
               else if q = ''bz'' then Inr 2 else Inr 0 :: error + real"
  have s25: "sqrt 25 = 5"
    by (rule real_sqrt_unique) simp_all
  have nB: "(2::real) = np_sqrt ar_real (np_add ar_real (np_add ar_real (np_square ar_real 0)
                  (np_square ar_real 2)) (np_square ar_real 0))"
    by (simp add: ar_real_def)
  have nv: "(5::real) = np_sqrt ar_real (np_add ar_real (np_add ar_real (np_square ar_real 3)
                  (np_square ar_real 4)) (np_square ar_real 0))"
    by (simp add: ar_real_def s25)
  from mrk_prt_eval_pitch_formula [where ar = ar_real and enter = "Inr ()" and ?h5.0 = "()"
      and read_data = ?rd and evaluate = ?ev and r = 6 and z = 1 and phi = 0 and vr = 3
      and vz = 4 and vphi = 0 and mass = 4 and br = 0 and bz = 2 and bphi = 0
      and normB = 2 and normv = 5, OF refl _ _ _ _ _ _ _ _ _ _ nB nv]
  show ?thesis by (simp add: ar_real_def)
qed

subsection \<open>options: what is written, and what comes back\<close>

text \<open>
  Claim C9. For an options dictionary (its keys distinct, as in every dictionary) written
  into the fresh group that add_group returns, \<^verbatim>\<open>options.write_hdf5\<close> creates exactly one
  dataset for every entry whose key is not \<^verbatim>\<open>qid\<close>, \<^verbatim>\<open>date\<close> or \<^verbatim>\<open>description\<close>, in
  order: the value converted to an array and cast to float64, as a one-dimensional
  dataset whose length is the number of elements of the value. No dataset is named
  \<^verbatim>\<open>qid\<close>, \<^verbatim>\<open>date\<close> or \<^verbatim>\<open>description\<close>.
\<close>

theorem options_write_datasets:
  fixes np :: "'v numpy" and np_array :: "'p \<Rightarrow> 'v ndarray" and add_group :: "'v add_group"
  assumes "distinct (map fst options)"
    and "h5_open_a fs fn = Inr f"
    and "add_group f ''options'' ''opt'' desc = (Inr name, f1)"
    and "f1 name = Some g" and "members g = []"
    and "written = map (\<lambda>(k, v). (k, \<lparr>ds = \<lparr>dtype = F8, shape = [asize (np_array v)],
                                          data = data (astype np F8 (np_array v))\<rparr>,
                                    attrs = []\<rparr>))
                    (filter (\<lambda>(k, v). k \<notin> {''qid'', ''date'', ''description''}) options)"
  shows "options_write_hdf5 np np_array add_group fs fn options desc
           = (Inr name, fs(fn \<mapsto> Hdf5 (f1(name \<mapsto> g\<lparr>members := written\<rparr>))))
         \<and> ''qid'' \<notin> fst ` set written \<and> ''date'' \<notin> fst ` set written
         \<and> ''description'' \<notin> fst ` set written"
proof -
  have "options_write_hdf5 np np_array add_group fs fn options desc
           = (Inr name, fs(fn \<mapsto> Hdf5 (f1(name \<mapsto> g\<lparr>members := written\<rparr>))))"
    unfolding assms(6)
    by (rule options_write_fresh [where add_group = add_group and f = f and ?f1.0 = f1
          and g = g and name = name, OF assms(1-5)])
  moreover have "''qid'' \<notin> fst ` set written" "''date'' \<notin> fst ` set written"
      "''description'' \<notin> fst ` set written"
    unfolding assms(6) by auto
  ultimately show ?thesis by simp
qed

text \<open>
  A dictionary with an integer scalar, a metadata entry and a 1 x 2 integer array, written
  to a file that did not exist.
\<close>

theorem options_write_datasets_witness:
  "options_write_hdf5 np_int id (add_group_qid ''-'' ''0123456789'' ''2020-01-01'') Map.empty
      ''in.h5''
      [(''SIM_MODE'', \<lparr>dtype = I8, shape = [], data = [3]\<rparr>),
       (''qid'', \<lparr>dtype = I8, shape = [], data = [7]\<rparr>),
       (''ORBITWRITE_POLOIDALANGLES'', \<lparr>dtype = I8, shape = [1, 2], data = [0, 180]\<rparr>)] None
   = (Inr ''/options/opt-0123456789'',
      [''in.h5'' \<mapsto> Hdf5 [''/options/opt-0123456789'' \<mapsto>
         \<lparr>gattrs = [(''description'', ''No description.''), (''date'', ''2020-01-01'')],
          members =
            [(''SIM_MODE'', \<lparr>ds = \<lparr>dtype = F8, shape = [1], data = [3]\<rparr>, attrs = []\<rparr>),
             (''ORBITWRITE_POLOIDALANGLES'',
              \<lparr>ds = \<lparr>dtype = F8, shape = [2], data = [0, 180]\<rparr>, attrs = []\<rparr>)]\<rparr>]])"
proof -
  let ?ag = "add_group_qid ''-'' ''0123456789'' ''2020-01-01'' :: int add_group"
  let ?g = "\<lparr>gattrs = [(''description'', ''No description.''), (''date'', ''2020-01-01'')],
             members = []\<rparr> :: int group"
  let ?f1 = "[''/options/opt-0123456789'' \<mapsto> ?g]"
  let ?opts = "[(''SIM_MODE'', \<lparr>dtype = I8, shape = [], data = [3::int]\<rparr>),
       (''qid'', \<lparr>dtype = I8, shape = [], data = [7]\<rparr>),
       (''ORBITWRITE_POLOIDALANGLES'', \<lparr>dtype = I8, shape = [1, 2], data = [0, 180]\<rparr>)]"
  have dist: "distinct (map fst ?opts)"
    by simp
  have opn: "h5_open_a (Map.empty :: int filesystem) ''in.h5'' = Inr Map.empty"
    by (simp add: h5_open_a_def)
  have grp: "?ag Map.empty ''options'' ''opt'' None = (Inr ''/options/opt-0123456789'', ?f1)"
    by (simp add: add_group_qid_def Let_def)
  have fresh: "?f1 ''/options/opt-0123456789'' = Some ?g" "members ?g = []"
    by simp_all
  from options_write_datasets [where np = np_int and np_array = id and add_group = ?ag
      and fs = Map.empty and fn = "''in.h5''" and f = Map.empty and desc = None
      and name = "''/options/opt-0123456789''" and ?f1.0 = ?f1 and g = ?g
      and options = ?opts, OF dist opn grp fresh refl]
  show ?thesis
    by (simp add: asize_def astype_def np_int_def)
qed

text \<open>
  Claim C4, as the code has it. For an options dictionary written into the fresh group
  \<^verbatim>\<open>/options/opt-<qid>\<close> and read back with \<^verbatim>\<open>info=False\<close>, every key other than \<^verbatim>\<open>qid\<close>,
  \<^verbatim>\<open>date\<close> and \<^verbatim>\<open>description\<close> maps to the value passed in, converted to float64 and
  flattened to one dimension. It is the array passed in when that is a one-dimensional
  float64 array.
\<close>

theorem options_roundtrip:
  fixes np :: "'v numpy" and np_array :: "'p \<Rightarrow> 'v ndarray" and add_group :: "'v add_group"
  assumes dist: "distinct (map fst options)"
    and opn: "h5_open_a fs fn = Inr f"
    and grp: "add_group f ''options'' ''opt'' desc = (Inr (''/options/opt-'' @ qid), f1)"
    and fresh: "f1 (''/options/opt-'' @ qid) = Some g" "members g = []"
    and meta: "h5_attr g ''date'' = Inr date" "h5_attr g ''description'' = Inr descr"
    and kv: "(k, v) \<in> set options" "k \<notin> {''qid'', ''date'', ''description''}"
  shows "\<exists>fs' out.
           options_write_hdf5 np np_array add_group fs fn options desc
             = (Inr (''/options/opt-'' @ qid), fs')
         \<and> options_read_hdf5 parse fs' fn qid False = Inr (out, None)
         \<and> out k = Some (Arr \<lparr>dtype = F8, shape = [asize (np_array v)],
                               data = data (astype np F8 (np_array v))\<rparr>)
         \<and> (dtype (np_array v) = F8 \<and> length (shape (np_array v)) = 1
              \<longrightarrow> out k = Some (Arr (np_array v)))"
proof -
  let ?st = "\<lambda>v. \<lparr>ds = \<lparr>dtype = F8, shape = [asize (np_array v)],
                          data = data (astype np F8 (np_array v))\<rparr>, attrs = []\<rparr>"
  let ?ms = "map (\<lambda>(k, v). (k, ?st v))
               (filter (\<lambda>(k, v). k \<notin> {''qid'', ''date'', ''description''}) options)"
  let ?g = "g\<lparr>members := ?ms\<rparr>"
  let ?fs = "fs(fn \<mapsto> Hdf5 (f1(''/options/opt-'' @ qid \<mapsto> ?g)))"
  let ?init = "[''qid'' \<mapsto> Str qid, ''date'' \<mapsto> Str date, ''description'' \<mapsto> Str descr]"
  let ?out = "foldl (\<lambda>out (opt, d). out(opt \<mapsto> Arr (ds d))) ?init ?ms"
  have w: "options_write_hdf5 np np_array add_group fs fn options desc
             = (Inr (''/options/opt-'' @ qid), ?fs)"
    by (rule options_write_fresh [where add_group = add_group and f = f and ?f1.0 = f1
          and g = g and name = "''/options/opt-'' @ qid", OF dist opn grp fresh])
  have attrs: "h5_attr ?g ''date'' = Inr date" "h5_attr ?g ''description'' = Inr descr"
    using meta by (simp_all add: h5_attr_def)
  have "read_into Arr ?ms ?init = Inr ?out"
    by (rule read_into_arrays) auto
  then have rd: "options_read_hdf5 parse ?fs fn qid False = Inr (?out, None)"
    using attrs
    by (simp add: options_read_hdf5_def h5_open_r_def h5_group_def Let_def)
  have look: "map_of ?ms k = Some (?st v)"
    by (rule map_of_stored [OF dist kv(1), where P = "\<lambda>k. k \<notin> {''qid'', ''date'', ''description''}"
          and h = ?st]) (rule kv(2))
  have "distinct (map fst ?ms)"
    by (rule distinct_stored [OF dist])
  from foldl_update_lookup [OF this, where h = "\<lambda>d. Arr (ds d)" and ?m0.0 = ?init and k = k]
  have out: "?out k = Some (Arr \<lparr>dtype = F8, shape = [asize (np_array v)],
                                 data = data (astype np F8 (np_array v))\<rparr>)"
    unfolding look by simp
  have same: "\<lparr>dtype = F8, shape = [asize (np_array v)],
               data = data (astype np F8 (np_array v))\<rparr> = np_array v"
    if d: "dtype (np_array v) = F8" and l: "length (shape (np_array v)) = 1"
  proof -
    obtain m where "shape (np_array v) = [m]"
      using l by (cases "shape (np_array v)") auto
    with d show ?thesis
      by (cases "np_array v") (simp add: asize_def astype_def)
  qed
  from w rd out same show ?thesis by auto
qed

text \<open>
  A dictionary holding a one-dimensional float64 array and an integer scalar: the array
  comes back as it was passed in.
\<close>

theorem options_roundtrip_witness:
  "\<exists>fs' out.
     options_write_hdf5 np_int id (add_group_qid ''-'' ''0123456789'' ''2020-01-01'') Map.empty
        ''in.h5''
        [(''SIM_MODE'', \<lparr>dtype = I8, shape = [], data = [3]\<rparr>),
         (''ORBITWRITE_POLOIDALANGLES'', \<lparr>dtype = F8, shape = [2], data = [0, 180]\<rparr>)] None
       = (Inr ''/options/opt-0123456789'', fs')
   \<and> options_read_hdf5 no_parse fs' ''in.h5'' ''0123456789'' False = Inr (out, None)
   \<and> out ''ORBITWRITE_POLOIDALANGLES'' = Some (Arr \<lparr>dtype = F8, shape = [2], data = [0, 180]\<rparr>)"
proof -
  let ?ag = "add_group_qid ''-'' ''0123456789'' ''2020-01-01'' :: int add_group"
  let ?g = "\<lparr>gattrs = [(''description'', ''No description.''), (''date'', ''2020-01-01'')],
             members = []\<rparr> :: int group"
  let ?f1 = "[''/options/opt-0123456789'' \<mapsto> ?g]"
  let ?v = "\<lparr>dtype = F8, shape = [2], data = [0, 180::int]\<rparr>"
  let ?opts = "[(''SIM_MODE'', \<lparr>dtype = I8, shape = [], data = [3::int]\<rparr>),
       (''ORBITWRITE_POLOIDALANGLES'', ?v)]"
  have dist: "distinct (map fst ?opts)"
    by simp
  have opn: "h5_open_a (Map.empty :: int filesystem) ''in.h5'' = Inr Map.empty"
    by (simp add: h5_open_a_def)
  have grp: "?ag Map.empty ''options'' ''opt'' None
             = (Inr (''/options/opt-'' @ ''0123456789''), ?f1)"
    by (simp add: add_group_qid_def Let_def)
  have fresh: "?f1 (''/options/opt-'' @ ''0123456789'') = Some ?g" "members ?g = []"
    by simp_all
  have meta: "h5_attr ?g ''date'' = Inr ''2020-01-01''"
      "h5_attr ?g ''description'' = Inr ''No description.''"
    by (simp_all add: h5_attr_def)
  have kv: "(''ORBITWRITE_POLOIDALANGLES'', ?v) \<in> set ?opts"
      "''ORBITWRITE_POLOIDALANGLES'' \<notin> {''qid'', ''date'', ''description''}"
    by simp_all
  from options_roundtrip [where np = np_int and np_array = id and add_group = ?ag
      and fs = Map.empty and fn = "''in.h5''" and f = Map.empty and desc = None
      and qid = "''0123456789''" and ?f1.0 = ?f1 and g = ?g and options = ?opts
      and parse = no_parse and k = "''ORBITWRITE_POLOIDALANGLES''" and v = ?v,
      OF dist opn grp fresh meta kv]
  show ?thesis by auto
qed

text \<open>
  Claim C4 as it is stated (every option array comes back equal to the one passed in)
  fails for a float64 array that is not one-dimensional: the 1 x 2 array holding 0 and
  180 comes back with shape \<open>(2)\<close>, since the dataset is created with shape
  \<^verbatim>\<open>(data.size,)\<close>.
\<close>

theorem options_roundtrip_counterexample:
  "fst (options_write_hdf5 np_int id (add_group_qid ''-'' ''0123456789'' ''2020-01-01'')
          Map.empty ''in.h5''
          [(''ORBITWRITE_POLOIDALANGLES'', \<lparr>dtype = F8, shape = [1, 2], data = [0, 180]\<rparr>)]
          None) = Inr ''/options/opt-0123456789''
   \<and> entry (map_sum id fst (options_read_hdf5 no_parse
        (snd (options_write_hdf5 np_int id (add_group_qid ''-'' ''0123456789'' ''2020-01-01'')
          Map.empty ''in.h5''
          [(''ORBITWRITE_POLOIDALANGLES'', \<lparr>dtype = F8, shape = [1, 2], data = [0, 180]\<rparr>)]
          None))
        ''in.h5'' ''0123456789'' False)) ''ORBITWRITE_POLOIDALANGLES''
      = Some (Arr \<lparr>dtype = F8, shape = [2], data = [0, 180]\<rparr>)
   \<and> Arr \<lparr>dtype = F8, shape = [2], data = [0, 180::int]\<rparr>
      \<noteq> Arr \<lparr>dtype = F8, shape = [1, 2], data = [0, 180]\<rparr>"
  by (simp add: options_write_hdf5_def options_read_hdf5_def entry_def h5_open_a_def
      h5_open_r_def h5_group_def h5_attr_def add_group_qid_def np_int_def create_dataset_def
      array_for_new_object_def astype_def asize_def read_dataset_def Let_def)

subsection \<open>The readers pass errors on\<close>

text \<open>
  Claim C5. When opening the file raises, \<^verbatim>\<open>E_3DS.read_hdf5\<close> and \<^verbatim>\<open>options.read_hdf5\<close>
  raise that very exception; when the file opens and looking up the group raises, they
  raise that very exception. Neither returns a dictionary in these cases.
\<close>

theorem read_errors_propagate:
  "(h5_open_r fs fn = Inl e
      \<longrightarrow> E_3DS_read_hdf5 fs fn qid = Inl e \<and> options_read_hdf5 parse fs fn qid info = Inl e)
   \<and> (h5_open_r fs fn = Inr f \<and> h5_group f (''efield/E_3DS_'' @ qid) = Inl e
      \<longrightarrow> E_3DS_read_hdf5 fs fn qid = Inl e)
   \<and> (h5_open_r fs fn = Inr f \<and> h5_group f (''options/opt-'' @ qid) = Inl e
      \<longrightarrow> options_read_hdf5 parse fs fn qid info = Inl e)"
  by (simp add: E_3DS_read_hdf5_def options_read_hdf5_def)

text \<open>
  A file that does not exist, and a file that holds a marker group but neither the field
  nor the options group asked for.
\<close>

theorem read_errors_propagate_witness:
  "E_3DS_read_hdf5 (Map.empty :: int filesystem) ''in.h5'' ''0123456789''
     = Inl (OSError ''Unable to open file (No such file or directory)'')
   \<and> options_read_hdf5 no_parse (Map.empty :: int filesystem) ''in.h5'' ''0123456789'' True
     = Inl (OSError ''Unable to open file (No such file or directory)'')
   \<and> E_3DS_read_hdf5
       [''in.h5'' \<mapsto> Hdf5 [''/marker/prt_0123456789'' \<mapsto> \<lparr>gattrs = [], members = []\<rparr>]]
       ''in.h5'' ''0123456789''
     = (Inl (KeyError ''Unable to open object (component not found)'')
          :: error + (string \<rightharpoonup> int ndarray))
   \<and> options_read_hdf5 no_parse
       [''in.h5'' \<mapsto> Hdf5 [''/marker/prt_0123456789'' \<mapsto> \<lparr>gattrs = [], members = []\<rparr>]]
       ''in.h5'' ''0123456789'' False
     = (Inl (KeyError ''Unable to open object (component not found)'')
          :: error + (string \<rightharpoonup> int pyval) \<times> unit option)"
proof -
  let ?f = "[''/marker/prt_0123456789'' \<mapsto> \<lparr>gattrs = [], members = []\<rparr>] :: int h5file"
  let ?fs = "[''in.h5'' \<mapsto> Hdf5 ?f]"
  let ?os = "OSError ''Unable to open file (No such file or directory)''"
  let ?ke = "KeyError ''Unable to open object (component not found)''"
  have o1: "h5_open_r (Map.empty :: int filesystem) ''in.h5'' = Inl ?os"
    by (simp add: h5_open_r_def)
  have o2: "h5_open_r ?fs ''in.h5'' = Inr ?f"
    by (simp add: h5_open_r_def)
  have g1: "h5_group ?f (''efield/E_3DS_'' @ ''0123456789'') = Inl ?ke"
    by (simp add: h5_group_def)
  have g2: "h5_group ?f (''options/opt-'' @ ''0123456789'') = Inl ?ke"
    by (simp add: h5_group_def)
  from read_errors_propagate [of "Map.empty :: int filesystem" "''in.h5''" ?os "''0123456789''"
      no_parse True] o1
  have a: "E_3DS_read_hdf5 (Map.empty :: int filesystem) ''in.h5'' ''0123456789'' = Inl ?os"
      "options_read_hdf5 no_parse (Map.empty :: int filesystem) ''in.h5'' ''0123456789'' True
         = Inl ?os"
    by blast+
  from read_errors_propagate [of ?fs "''in.h5''" ?ke "''0123456789''" no_parse False ?f] o2 g1 g2
  have b: "E_3DS_read_hdf5 ?fs ''in.h5'' ''0123456789'' = Inl ?ke"
      "options_read_hdf5 no_parse ?fs ''in.h5'' ''0123456789'' False = Inl ?ke"
    by blast+
  from a b show ?thesis by simp
qed

subsection \<open>LibMhd.evaluate\<close>

text \<open>
  Claim C6. For a quantity among \<^verbatim>\<open>br\<close>, \<^verbatim>\<open>bphi\<close>, \<^verbatim>\<open>bz\<close>, \<^verbatim>\<open>er\<close>, \<^verbatim>\<open>ephi\<close>, \<^verbatim>\<open>ez\<close>,
  \<^verbatim>\<open>LibMhd.evaluate(R, phi, z, t, quantity)\<close> is \<^verbatim>\<open>eval_mhd(R, phi, z, t)[quantity]\<close>: the
  same value, or the same exception. For every other quantity it raises AssertionError.
\<close>

theorem LibMhd_evaluate_quantities:
  "(quantity \<in> set [''br'', ''bphi'', ''bz'', ''er'', ''ephi'', ''ez'']
      \<longrightarrow> LibMhd_evaluate eval_mhd R phi z t quantity
            = and_then (eval_mhd R phi z t) (\<lambda>d. getitem d quantity))
   \<and> (quantity \<notin> set [''br'', ''bphi'', ''bz'', ''er'', ''ephi'', ''ez'']
      \<longrightarrow> LibMhd_evaluate eval_mhd R phi z t quantity = Inl (AssertionError ''Unknown quantity''))"
proof (intro conjI impI)
  assume q: "quantity \<in> set [''br'', ''bphi'', ''bz'', ''er'', ''ephi'', ''ez'']"
  show "LibMhd_evaluate eval_mhd R phi z t quantity
          = and_then (eval_mhd R phi z t) (\<lambda>d. getitem d quantity)"
  proof (cases "eval_mhd R phi z t")
    case (Inl e)
    with q show ?thesis by (simp add: LibMhd_evaluate_def)
  next
    case (Inr d)
    with q show ?thesis
      by (cases "d quantity") (simp_all add: LibMhd_evaluate_def getitem_def)
  qed
next
  assume "quantity \<notin> set [''br'', ''bphi'', ''bz'', ''er'', ''ephi'', ''ez'']"
  then show "LibMhd_evaluate eval_mhd R phi z t quantity = Inl (AssertionError ''Unknown quantity'')"
    by (simp add: LibMhd_evaluate_def)
qed

text \<open>
  A library that returns 5 for \<^verbatim>\<open>bphi\<close> and 7 for \<^verbatim>\<open>ez\<close>: \<^verbatim>\<open>bphi\<close> is returned, and
  \<^verbatim>\<open>psi\<close> raises.
\<close>

theorem LibMhd_evaluate_quantities_witness:
  "LibMhd_evaluate (\<lambda>R phi z t. Inr [''bphi'' \<mapsto> 5, ''ez'' \<mapsto> 7]) (6::int) (0::int) (1::int)
      (0::int) ''bphi'' = Inr (5::int)
   \<and> LibMhd_evaluate (\<lambda>R phi z t. Inr [''bphi'' \<mapsto> 5, ''ez'' \<mapsto> 7]) (6::int) (0::int) (1::int)
      (0::int) ''psi'' = (Inl (AssertionError ''Unknown quantity'') :: error + int)"
proof -
  let ?em = "\<lambda>(R::int) (phi::int) (z::int) (t::int).
               Inr [''bphi'' \<mapsto> 5::int, ''ez'' \<mapsto> 7] :: error + (string \<rightharpoonup> int)"
  have q1: "''bphi'' \<in> set [''br'', ''bphi'', ''bz'', ''er'', ''ephi'', ''ez'']"
    by simp
  have q2: "''psi'' \<notin> set [''br'', ''bphi'', ''bz'', ''er'', ''ephi'', ''ez'']"
    by simp
  from LibMhd_evaluate_quantities [of "''bphi''" ?em 6 0 1 0] q1
  have "LibMhd_evaluate ?em 6 0 1 0 ''bphi'' = and_then (?em 6 0 1 0) (\<lambda>d. getitem d ''bphi'')"
    by blast
  then have a: "LibMhd_evaluate ?em 6 0 1 0 ''bphi'' = Inr 5"
    by (simp add: getitem_def)
  from LibMhd_evaluate_quantities [of "''psi''" ?em 6 0 1 0] q2
  have b: "LibMhd_evaluate ?em 6 0 1 0 ''psi'' = Inl (AssertionError ''Unknown quantity'')"
    by blast
  from a b show ?thesis by simp
qed

subsection \<open>read_erad\<close>

text \<open>
  Claim C10. Take a file whose second line has a first token and whose remaining lines
  \<^verbatim>\<open>loadtxt\<close> reads as a table of \<open>m\<close> rows and at least two columns. When the largest
  difference of consecutive \<open>rho\<close> values divided by the smallest is not greater than the
  tolerance, \<^verbatim>\<open>read_erad\<close> returns the first column as \<^verbatim>\<open>rho\<close> and the second as
  \<^verbatim>\<open>dV_drho\<close>, unchanged, prints nothing, and returns as \<^verbatim>\<open>n_rho\<close> the first token of the
  second line, a string.
\<close>

theorem read_erad_linear:
  assumes "fs fn = Some (Text content)"
    and "readline content = (line1, rest1)" and "readline rest1 = (line2, rest2)"
    and "split_ws line2 = tok # toks"
    and "loadtxt fl rest2 = Inr a" and "shape a = [m, k]" and "2 \<le> k"
    and "col0 = map (\<lambda>i. data a ! (i * k)) [0..<m]"
    and "col1 = map (\<lambda>i. data a ! (i * k + 1)) [0..<m]"
    and "py_max fl (np_diff fl col0) = Inr mx" and "py_min fl (np_diff fl col0) = Inr mn"
    and "\<not> fgt fl (fdiv fl mx mn) (tol fl)"
  shows "read_erad fl fs fn
         = (Inr \<lparr>comm1 = line1, n_rho = tok, rho = col0, dV_drho = col1\<rparr>, [])"
proof -
  have c0: "column a 0 = Inr col0" and c1: "column a 1 = Inr col1"
    using assms(6-9) by (simp_all add: column_def)
  show ?thesis
    using assms(1-5,10-12) c0 c1
    by (simp add: read_erad_def Let_def)
qed

text \<open>
  A file of the comment line \<^verbatim>\<open>#\<close>, a second line made of \<^verbatim>\<open>3\<close>, a no-break space
  (U+00A0) and \<^verbatim>\<open>pts\<close>, and three rows \<^verbatim>\<open>0 10\<close>, \<^verbatim>\<open>1 20\<close>, \<^verbatim>\<open>2 30\<close>, read as the table
  \<open>(0, 10), (1, 20), (2, 30)\<close>: the differences are 1 and 1, and \<^verbatim>\<open>n_rho\<close> is the
  string \<^verbatim>\<open>3\<close>.
\<close>

theorem read_erad_linear_witness:
  "read_erad (fl_int \<lparr>dtype = F8, shape = [3, 2], data = [0, 10, 1, 20, 2, 30]\<rparr>)
     [''erad.dat'' \<mapsto> Text ([0x23, 0x0A] @ [0x33, 0xA0, 0x70, 0x74, 0x73, 0x0A]
                           @ [0x30, 0x20, 0x31, 0x30, 0x0A] @ [0x31, 0x20, 0x32, 0x30, 0x0A]
                           @ [0x32, 0x20, 0x33, 0x30, 0x0A])]
     ''erad.dat''
   = (Inr \<lparr>comm1 = [0x23, 0x0A], n_rho = [0x33], rho = [0, 1, 2],
           dV_drho = [10, 20, 30]\<rparr>, [])"
proof -
  let ?a = "\<lparr>dtype = F8, shape = [3, 2], data = [0, 10, 1, 20, 2, 30::int]\<rparr>"
  let ?fl = "fl_int ?a"
  let ?rest2 = "[0x30, 0x20, 0x31, 0x30, 0x0A] @ [0x31, 0x20, 0x32, 0x30, 0x0A]
                @ [0x32, 0x20, 0x33, 0x30, 0x0A::nat]"
  let ?line2 = "[0x33, 0xA0, 0x70, 0x74, 0x73, 0x0A::nat]"
  let ?rest1 = "?line2 @ ?rest2"
  let ?content = "[0x23, 0x0A] @ ?rest1"
  have f: "[''erad.dat'' \<mapsto> Text ?content] ''erad.dat'' = Some (Text ?content)"
    by simp
  have l1: "readline ?content = ([0x23, 0x0A], ?rest1)"
    by simp
  have l2: "readline ?rest1 = (?line2, ?rest2)"
    by simp
  have tk: "split_ws ?line2 = [0x33] # [[0x70, 0x74, 0x73]]"
    by (simp add: split_ws_def is_space_def)
  have ld: "loadtxt ?fl ?rest2 = Inr ?a"
    by (simp add: fl_int_def)
  have sh: "shape ?a = [3, 2]" and k: "(2::nat) \<le> 2"
    by simp_all
  have c0: "[0, 1, 2] = map (\<lambda>i. data ?a ! (i * 2)) [0..<3]"
    by (simp add: upt_rec)
  have c1: "[10, 20, 30] = map (\<lambda>i. data ?a ! (i * 2 + 1)) [0..<3]"
    by (simp add: upt_rec)
  have mx: "py_max ?fl (np_diff ?fl [0, 1, 2]) = Inr 1"
    by (simp add: py_max_def fl_int_def)
  have mn: "py_min ?fl (np_diff ?fl [0, 1, 2]) = Inr 1"
    by (simp add: py_min_def fl_int_def)
  have lin: "\<not> fgt ?fl (fdiv ?fl 1 1) (tol ?fl)"
    by (simp add: fl_int_def)
  from read_erad_linear [where fs = "[''erad.dat'' \<mapsto> Text ?content]" and fn = "''erad.dat''"
      and fl = ?fl and a = ?a, OF f l1 l2 tk ld sh k c0 c1 mx mn lin]
  show ?thesis by simp
qed

end
